theory Spec2Isabelle
  imports Complex_Main "HOL-Library.Sublist"
begin

section \<open>The upload zone (UploadZone.jsx)\<close>

text \<open>
  A browser \<open>File\<close>: its name and its MIME type as the browser reports it
  (\<open>file.type\<close>), and its size in bytes.
\<close>

record js_file =
  fname :: string
  ftype :: string
  fsize :: nat

text \<open>
  The component's own state (\<open>useState\<close>), and the calls it makes to the
  \<open>onFileSelect\<close> prop, in order. A handler returns the new state and the
  calls it made.
\<close>

record upload_zone =
  isDragging :: bool
  isSettingsOpen :: bool

definition handleDragOver :: "upload_zone \<Rightarrow> upload_zone \<times> js_file list" where
  "handleDragOver z = (z\<lparr>isDragging := True\<rparr>, [])"

definition handleDragLeave :: "upload_zone \<Rightarrow> upload_zone \<times> js_file list" where
  "handleDragLeave z = (z\<lparr>isDragging := False\<rparr>, [])"

text \<open>
  \<open>const files = e.dataTransfer.files;
  if (files.length > 0 && files[0].type === 'application/pdf') onFileSelect(files[0]);\<close>
  The source's \<open>&&\<close> reads \<open>files[0]\<close> only when the list is not empty; the
  model matches on the list.
\<close>

definition handleDrop :: "js_file list \<Rightarrow> upload_zone \<Rightarrow> upload_zone \<times> js_file list" where
  "handleDrop files z =
     (let z' = z\<lparr>isDragging := False\<rparr> in
      case files of
        [] \<Rightarrow> (z', [])
      | f # _ \<Rightarrow> if ftype f = ''application/pdf'' then (z', [f]) else (z', []))"

text \<open>
  \<open>const files = e.target.files; if (files.length > 0) onFileSelect(files[0]);\<close>
\<close>

definition handleFileInput :: "js_file list \<Rightarrow> upload_zone \<Rightarrow> upload_zone \<times> js_file list" where
  "handleFileInput files z =
     (case files of [] \<Rightarrow> (z, []) | f # _ \<Rightarrow> (z, [f]))"

section \<open>The PDF viewer (PDFViewer component)\<close>

text \<open>
  The component state: \<open>numPages\<close> is \<open>null\<close> until the document has loaded,
  \<open>pageNumber\<close> starts at 1 and \<open>scale\<close> at 1.0.

  JavaScript numbers are doubles. Page numbers are small integers, which doubles
  represent exactly, so they are modelled as \<open>int\<close>. The scale is a rational, and the
  rounding of double arithmetic is a parameter \<open>rnd\<close> of the zoom handlers: the literal
  \<open>0.2\<close> is \<open>rnd (2 / 10)\<close>, the sum \<open>prev + 0.2\<close> is
  \<open>rnd (prev + rnd (2 / 10))\<close>. The literals \<open>1.0\<close> and \<open>2.0\<close> are exact.
  With \<open>rnd\<close> the identity the model computes in exact arithmetic.
\<close>

record pdf_viewer =
  numPages :: "int option"
  pageNumber :: int
  scale :: rat

definition initial_viewer :: pdf_viewer where
  "initial_viewer = \<lparr>numPages = None, pageNumber = 1, scale = 1\<rparr>"

text \<open>
  \<open>Math.min\<close> and the comparison \<open>>=\<close> convert their operands with ToNumber,
  which maps \<open>null\<close> to 0.
\<close>

definition to_number :: "int option \<Rightarrow> int" where
  "to_number n = (case n of None \<Rightarrow> 0 | Some k \<Rightarrow> k)"

definition onDocumentLoadSuccess :: "int \<Rightarrow> pdf_viewer \<Rightarrow> pdf_viewer" where
  "onDocumentLoadSuccess n v = v\<lparr>numPages := Some n\<rparr>"

text \<open>\<open>setPageNumber((prev) => Math.max(prev - 1, 1))\<close>\<close>

definition goToPrevPage :: "pdf_viewer \<Rightarrow> pdf_viewer" where
  "goToPrevPage v = v\<lparr>pageNumber := max (pageNumber v - 1) 1\<rparr>"

text \<open>\<open>setPageNumber((prev) => Math.min(prev + 1, numPages))\<close>\<close>

definition goToNextPage :: "pdf_viewer \<Rightarrow> pdf_viewer" where
  "goToNextPage v = v\<lparr>pageNumber := min (pageNumber v + 1) (to_number (numPages v))\<rparr>"

text \<open>\<open>setScale((prev) => Math.min(prev + 0.2, 2.0))\<close>\<close>

definition zoomIn :: "(rat \<Rightarrow> rat) \<Rightarrow> pdf_viewer \<Rightarrow> pdf_viewer" where
  "zoomIn rnd v = v\<lparr>scale := min (rnd (scale v + rnd (2 / 10))) 2\<rparr>"

text \<open>\<open>setScale((prev) => Math.max(prev - 0.2, 0.6))\<close>\<close>

definition zoomOut :: "(rat \<Rightarrow> rat) \<Rightarrow> pdf_viewer \<Rightarrow> pdf_viewer" where
  "zoomOut rnd v = v\<lparr>scale := max (rnd (scale v - rnd (2 / 10))) (rnd (6 / 10))\<rparr>"

datatype control = GoToPrevPage | GoToNextPage | ZoomIn | ZoomOut

fun control_handler :: "(rat \<Rightarrow> rat) \<Rightarrow> control \<Rightarrow> pdf_viewer \<Rightarrow> pdf_viewer" where
  "control_handler rnd GoToPrevPage v = goToPrevPage v"
| "control_handler rnd GoToNextPage v = goToNextPage v"
| "control_handler rnd ZoomIn v = zoomIn rnd v"
| "control_handler rnd ZoomOut v = zoomOut rnd v"

text \<open>
  The \<open>disabled\<close> attribute of the four buttons:
  \<open>pageNumber <= 1\<close>, \<open>pageNumber >= numPages\<close>, \<open>scale <= 0.6\<close>,
  \<open>scale >= 2.0\<close>. A click on a disabled button does not reach its handler.
\<close>

fun control_disabled :: "(rat \<Rightarrow> rat) \<Rightarrow> control \<Rightarrow> pdf_viewer \<Rightarrow> bool" where
  "control_disabled rnd GoToPrevPage v = (pageNumber v \<le> 1)"
| "control_disabled rnd GoToNextPage v = (pageNumber v \<ge> to_number (numPages v))"
| "control_disabled rnd ZoomOut v = (scale v \<le> rnd (6 / 10))"
| "control_disabled rnd ZoomIn v = (scale v \<ge> 2)"

definition click :: "(rat \<Rightarrow> rat) \<Rightarrow> control \<Rightarrow> pdf_viewer \<Rightarrow> pdf_viewer" where
  "click rnd c v = (if control_disabled rnd c v then v else control_handler rnd c v)"

text \<open>A sequence of handler calls, and a sequence of clicks on the buttons.\<close>

fun run_controls :: "(rat \<Rightarrow> rat) \<Rightarrow> control list \<Rightarrow> pdf_viewer \<Rightarrow> pdf_viewer" where
  "run_controls rnd [] v = v"
| "run_controls rnd (c # cs) v = run_controls rnd cs (control_handler rnd c v)"

fun run_clicks :: "(rat \<Rightarrow> rat) \<Rightarrow> control list \<Rightarrow> pdf_viewer \<Rightarrow> pdf_viewer" where
  "run_clicks rnd [] v = v"
| "run_clicks rnd (c # cs) v = run_clicks rnd cs (click rnd c v)"

text \<open>
  What the proofs use of double rounding: it is monotone, it leaves a double
  unchanged, and 0, 1 and 2 are doubles. Round-to-nearest has these properties, and
  so has the identity.
\<close>

definition rounding :: "(rat \<Rightarrow> rat) \<Rightarrow> bool" where
  "rounding rnd =
     (mono rnd \<and> (\<forall>x. rnd (rnd x) = rnd x) \<and> rnd 0 = 0 \<and> rnd 1 = 1 \<and> rnd 2 = 2)"

definition scale_ok :: "(rat \<Rightarrow> rat) \<Rightarrow> pdf_viewer \<Rightarrow> bool" where
  "scale_ok rnd v = (rnd (6 / 10) \<le> scale v \<and> scale v \<le> 2)"

section \<open>The parse response\<close>

text \<open>
  The JSON object the parse endpoint answers with. A member that is missing,
  \<open>null\<close> or \<open>undefined\<close> is \<open>None\<close>.
\<close>

record contact_info =
  first_name :: "string option"
  last_name :: "string option"
  email :: "string option"
  phone :: "string option"
  city :: "string option"
  state :: "string option"

record education_entry =
  degree :: string
  field_of_study :: string
  institution :: string
  graduation_year :: string

record experience_entry =
  job_title :: string
  company :: string
  start_date :: string
  end_date :: "string option"
  description :: "string list"

record parse_result =
  contact :: "contact_info option"
  education :: "education_entry list option"
  work_experience :: "experience_entry list option"
  skills :: "string list option"

section \<open>The API client (services/api.js)\<close>

text \<open>
  The arguments of \<open>axios.post\<close>: the URL, the fields of the multipart form, the
  headers and the \<open>timeout\<close> option (absent when the call sets none).
\<close>

record request =
  url :: string
  form :: "(string \<times> js_file) list"
  headers :: "(string \<times> string) list"
  timeout_ms :: "nat option"

text \<open>
  What \<open>axios.post\<close> does: it resolves with \<open>response.data\<close>, or rejects with an
  error that carries a response (\<open>error.response.status\<close> and
  \<open>error.response.data.detail\<close>), or a request without a response (with
  \<open>error.code\<close>), or neither. The detail of an error response is a string, as the
  backend's own error answers have it; a detail that is missing or empty is falsy.
\<close>

datatype outcome =
    Resolved "parse_result option"
  | ErrorResponse int "string option"
  | NoResponse "string option"
  | SetupFailure

text \<open>
  The server is a function from requests to outcomes; the requests that went out are
  recorded in order.
\<close>

record network =
  respond :: "request \<Rightarrow> outcome"
  sent :: "request list"

definition axios_post :: "request \<Rightarrow> network \<Rightarrow> outcome \<times> network" where
  "axios_post rq net = (respond net rq, net\<lparr>sent := sent net @ [rq]\<rparr>)"

text \<open>\<open>import.meta.env.VITE_API_URL || 'http://localhost:8000/api/v1'\<close>\<close>

definition API_BASE_URL :: "string option \<Rightarrow> string" where
  "API_BASE_URL env =
     (case env of
        None \<Rightarrow> ''http://localhost:8000/api/v1''
      | Some u \<Rightarrow> if u = [] then ''http://localhost:8000/api/v1'' else u)"

text \<open>\<open>error.response.data.detail || 'Unknown error occurred'\<close>\<close>

definition detail_or_unknown :: "string option \<Rightarrow> string" where
  "detail_or_unknown d =
     (case d of
        None \<Rightarrow> ''Unknown error occurred''
      | Some s \<Rightarrow> if s = [] then ''Unknown error occurred'' else s)"

text \<open>
  The message of the \<open>Error\<close> thrown for an error response, by status code.
\<close>

definition response_error_message :: "int \<Rightarrow> string option \<Rightarrow> string" where
  "response_error_message status d =
     (let detail = detail_or_unknown d in
      if status = 400 then ''Invalid file: '' @ detail
      else if status = 413 then ''File is too large. Maximum size is 10MB.''
      else if status = 422 then detail
      else if status = 500 then ''Server error while processing PDF. Please try again.''
      else detail)"

text \<open>
  The repository holds two copies of the client. This is the one-parameter copy,
  \<open>export const parseResume = async (file) => ...\<close>: one form field, one endpoint.
  The result is \<open>Inl message\<close> for a thrown \<open>Error(message)\<close>.
\<close>

definition parseResume ::
  "string \<Rightarrow> js_file \<Rightarrow> network \<Rightarrow> (string + parse_result option) \<times> network" where
  "parseResume base f net =
     (let formData = [(''file'', f)];
          (out, net') = axios_post
             \<lparr>url = base @ ''/resume/parse'', form = formData,
              headers = [(''Content-Type'', ''multipart/form-data'')], timeout_ms = None\<rparr> net
      in case out of
           Resolved data \<Rightarrow> (Inr data, net')
         | ErrorResponse status d \<Rightarrow> (Inl (response_error_message status d), net')
         | NoResponse code \<Rightarrow>
             (Inl ''Cannot connect to server. Please make sure the backend is running on http://localhost:8000'', net')
         | SetupFailure \<Rightarrow> (Inl ''An unexpected error occurred. Please try again.'', net'))"

text \<open>
  The two-parameter copy of the client,
  \<open>export const parseResume = async (file, method = 'regex') => ...\<close>, the one
  written for the call \<open>parseResume(file, parsingMethod)\<close> of the application: it
  picks the endpoint and the timeout from the method and reports a timeout on its
  own. The caller always passes a string, so the default of \<open>method\<close> is not used.
\<close>

definition parseResume_with_method ::
  "string \<Rightarrow> js_file \<Rightarrow> string \<Rightarrow> network \<Rightarrow> (string + parse_result option) \<times> network" where
  "parseResume_with_method base f method net =
     (let formData = [(''file'', f)];
          endpoint = (if method = ''llm'' then base @ ''/resume/parse-llm''
                      else base @ ''/resume/parse'');
          (out, net') = axios_post
             \<lparr>url = endpoint, form = formData,
              headers = [(''Content-Type'', ''multipart/form-data'')],
              timeout_ms = Some (if method = ''llm'' then 120000 else 30000)\<rparr> net
      in case out of
           Resolved data \<Rightarrow> (Inr data, net')
         | ErrorResponse status d \<Rightarrow> (Inl (response_error_message status d), net')
         | NoResponse code \<Rightarrow>
             (if code = Some ''ECONNABORTED''
              then (Inl ''Request timed out. The LLM-based parsing is taking longer than expected. Please try again or use regex-based parsing.'', net')
              else (Inl ''Cannot connect to server. Please make sure the backend is running on http://localhost:8000'', net'))
         | SetupFailure \<Rightarrow> (Inl ''An unexpected error occurred. Please try again.'', net'))"

section \<open>The application (App.jsx)\<close>

text \<open>
  The toasts of \<open>react-hot-toast\<close>, in the order they are raised: the loading toast,
  and the toast that replaces it (same \<open>id\<close>) when the request settles.
\<close>

datatype toast =
    Loading string
  | Notice string string
  | Success string "string option"
  | Failure string string

record app =
  pdfFile :: "js_file option"
  extractedData :: "parse_result option"
  isLoading :: bool
  parsingMethod :: string
  toasts :: "toast list"

definition initial_app :: app where
  "initial_app = \<lparr>pdfFile = None, extractedData = None, isLoading = False,
                   parsingMethod = ''regex'', toasts = []\<rparr>"

text \<open>A string member is truthy when it is present and not empty.\<close>

definition truthy :: "string option \<Rightarrow> bool" where
  "truthy v = (case v of None \<Rightarrow> False | Some s \<Rightarrow> s \<noteq> [])"

text \<open>
  \<open>result.contact?.first_name || result.contact?.email || result.contact?.phone\<close>
\<close>

definition hasContact :: "parse_result \<Rightarrow> bool" where
  "hasContact r =
     (case contact r of
        None \<Rightarrow> False
      | Some c \<Rightarrow> truthy (first_name c) \<or> truthy (email c) \<or> truthy (phone c))"

text \<open>\<open>result.education?.length > 0\<close>, and the same for the other two arrays.\<close>

definition hasEducation :: "parse_result \<Rightarrow> bool" where
  "hasEducation r = (case education r of None \<Rightarrow> False | Some es \<Rightarrow> length es > 0)"

definition hasExperience :: "parse_result \<Rightarrow> bool" where
  "hasExperience r = (case work_experience r of None \<Rightarrow> False | Some ws \<Rightarrow> length ws > 0)"

definition hasSkills :: "parse_result \<Rightarrow> bool" where
  "hasSkills r = (case skills r of None \<Rightarrow> False | Some ss \<Rightarrow> length ss > 0)"

text \<open>
  \<open>[hasContact, hasEducation, hasExperience, hasSkills].filter(Boolean).length\<close>
\<close>

definition extractedCount :: "parse_result \<Rightarrow> nat" where
  "extractedCount r =
     length (filter (\<lambda>b. b) [hasContact r, hasEducation r, hasExperience r, hasSkills r])"

text \<open>
  The three branches on \<open>extractedCount\<close>: \<open>=== 0\<close> (no data extracted),
  \<open>< 3\<close> (partial data extracted), otherwise most or all data extracted.
\<close>

datatype completeness = NONE | PARTIAL | FULL

definition classify :: "nat \<Rightarrow> completeness" where
  "classify extracted = (if extracted = 0 then NONE else if extracted < 3 then PARTIAL else FULL)"

definition completeness_toast :: "completeness \<Rightarrow> toast" where
  "completeness_toast c =
     (case c of
        NONE \<Rightarrow> Notice ''No data extracted'' ''Please fill in the form manually''
      | PARTIAL \<Rightarrow> Success ''Partial data extracted''
                     (Some ''Please review and fill in missing fields'')
      | FULL \<Rightarrow> Success ''Resume parsed successfully!'' None)"

text \<open>\<open>haystack.includes(needle)\<close>\<close>

fun str_includes :: "string \<Rightarrow> string \<Rightarrow> bool" where
  "str_includes [] needle = (needle = [])"
| "str_includes (c # cs) needle = (prefix needle (c # cs) \<or> str_includes cs needle)"

definition errorTitle :: "string \<Rightarrow> string" where
  "errorTitle message =
     (let isValidationError = (str_includes message ''doesn't appear to be a resume''
                               \<or> str_includes message ''no extractable text'');
          isParsingFailure = (str_includes message ''Failed to parse PDF''
                              \<or> str_includes message ''couldn't extract data'')
      in if isValidationError then ''Invalid Resume''
         else if isParsingFailure then ''Extraction Failed''
         else ''PDF Parsing Failed'')"

text \<open>The \<open>catch\<close> block followed by the \<open>finally\<close> block.\<close>

definition catch_block :: "string \<Rightarrow> app \<Rightarrow> app" where
  "catch_block message s =
     s\<lparr>toasts := toasts s @ [Failure (errorTitle message) message],
       pdfFile := None, extractedData := None, isLoading := False\<rparr>"

text \<open>
  Reading \<open>result.contact\<close> of a \<open>null\<close> result throws a \<open>TypeError\<close> inside the
  \<open>try\<close> block; its message is the engine's.
\<close>

definition null_result_message :: string where
  "null_result_message = ''Cannot read properties of null (reading 'contact')''"

text \<open>
  \<open>handleFileSelect\<close>, from the call to the settled promise, over the one-parameter
  copy of the client: of the call \<open>parseResume(file, parsingMethod)\<close> that copy binds
  the file only.
\<close>

definition handleFileSelect :: "string \<Rightarrow> js_file \<Rightarrow> app \<Rightarrow> network \<Rightarrow> app \<times> network" where
  "handleFileSelect base f s net =
     (let s1 = s\<lparr>pdfFile := Some f, isLoading := True\<rparr>;
          loadingMessage = (if parsingMethod s = ''llm''
                            then ''Processing with AI... This may take a moment.''
                            else ''Processing your resume...'');
          s2 = s1\<lparr>toasts := toasts s1 @ [Loading loadingMessage]\<rparr>;
          (res, net') = parseResume base f net
      in case res of
           Inr (Some result) \<Rightarrow>
             (let s3 = s2\<lparr>extractedData := Some result\<rparr> in
              (s3\<lparr>toasts := toasts s3 @ [completeness_toast (classify (extractedCount result))],
                  isLoading := False\<rparr>, net'))
         | Inr None \<Rightarrow> (catch_block null_result_message (s2\<lparr>extractedData := None\<rparr>), net')
         | Inl message \<Rightarrow> (catch_block message s2, net'))"

text \<open>
  \<open>handleFileSelect\<close> with the imported \<open>parseResume\<close> as a parameter, called as the
  source calls it, \<open>parseResume(file, parsingMethod)\<close>. With the two-parameter copy of
  the client for \<open>client\<close> this is the application as its call site is written.
\<close>

definition handleFileSelect_via ::
  "(js_file \<Rightarrow> string \<Rightarrow> network \<Rightarrow> (string + parse_result option) \<times> network)
    \<Rightarrow> js_file \<Rightarrow> app \<Rightarrow> network \<Rightarrow> app \<times> network" where
  "handleFileSelect_via client f s net =
     (let s1 = s\<lparr>pdfFile := Some f, isLoading := True\<rparr>;
          loadingMessage = (if parsingMethod s = ''llm''
                            then ''Processing with AI... This may take a moment.''
                            else ''Processing your resume...'');
          s2 = s1\<lparr>toasts := toasts s1 @ [Loading loadingMessage]\<rparr>;
          (res, net') = client f (parsingMethod s) net
      in case res of
           Inr (Some result) \<Rightarrow>
             (let s3 = s2\<lparr>extractedData := Some result\<rparr> in
              (s3\<lparr>toasts := toasts s3 @ [completeness_toast (classify (extractedCount result))],
                  isLoading := False\<rparr>, net'))
         | Inr None \<Rightarrow> (catch_block null_result_message (s2\<lparr>extractedData := None\<rparr>), net')
         | Inl message \<Rightarrow> (catch_block message s2, net'))"

definition handleReset :: "app \<Rightarrow> app" where
  "handleReset s =
     s\<lparr>pdfFile := None, extractedData := None,
       toasts := toasts s @ [Success ''Ready for new upload'' None]\<rparr>"

text \<open>
  The completeness classification as the specification words it: a category counts
  when any of its fields or entries is not empty, the contact category for any of its
  six fields.
\<close>

definition spec_contact_present :: "parse_result \<Rightarrow> bool" where
  "spec_contact_present r =
     (case contact r of
        None \<Rightarrow> False
      | Some c \<Rightarrow> truthy (first_name c) \<or> truthy (last_name c) \<or> truthy (email c)
                  \<or> truthy (phone c) \<or> truthy (city c) \<or> truthy (state c))"

definition spec_completeness :: "parse_result \<Rightarrow> completeness" where
  "spec_completeness r =
     (let n = length (filter (\<lambda>b. b)
                [spec_contact_present r, hasEducation r, hasExperience r, hasSkills r])
      in if n = 0 then NONE else if n \<le> 2 then PARTIAL else FULL)"

section \<open>The resume form (ResumeForm.jsx)\<close>

text \<open>
  The edit handlers build objects and arrays that may share parts with the \<open>data\<close>
  prop, so objects live in a store: a map from addresses to objects, with the next free
  address. A value is a primitive or a reference into the store. An array hole reads
  as \<open>undefined\<close>, and so it is stored.
\<close>

type_synonym addr = nat

datatype jsval = Undefined | Null | Str string | Ref addr

datatype jsobj = Obj "(string \<times> jsval) list" | Arr "jsval list"

datatype js_error = TypeError

record js_heap =
  objs :: "addr \<Rightarrow> jsobj option"
  lim :: addr

text \<open>An object or array literal allocates at the next free address.\<close>

definition alloc :: "jsobj \<Rightarrow> js_heap \<Rightarrow> addr \<times> js_heap" where
  "alloc ob h = (lim h, h\<lparr>objs := (objs h)(lim h \<mapsto> ob), lim := Suc (lim h)\<rparr>)"

text \<open>
  \<open>xs[i] = v\<close> on a JavaScript array: within the length it replaces the element,
  beyond it the array grows and the positions in between are holes.
\<close>

definition array_set :: "jsval list \<Rightarrow> nat \<Rightarrow> jsval \<Rightarrow> jsval list" where
  "array_set xs i v =
     (if i < length xs then xs[i := v]
      else xs @ replicate (i - length xs) Undefined @ [v])"

text \<open>The assignment \<open>arr[i] = v\<close> through a reference: the one write to the store.\<close>

definition array_assign :: "addr \<Rightarrow> nat \<Rightarrow> jsval \<Rightarrow> js_heap \<Rightarrow> js_heap" where
  "array_assign a i v h =
     (case objs h a of
        Some (Arr xs) \<Rightarrow> h\<lparr>objs := (objs h)(a \<mapsto> Arr (array_set xs i v))\<rparr>
      | _ \<Rightarrow> h)"

fun lookup_member :: "(string \<times> jsval) list \<Rightarrow> string \<Rightarrow> jsval" where
  "lookup_member [] k = Undefined"
| "lookup_member ((k', v) # fs) k = (if k' = k then v else lookup_member fs k)"

text \<open>
  A member written after a spread, \<open>{...o, [k]: v}\<close>: an existing key keeps its
  position and takes the new value, a new key goes last.
\<close>

fun set_member :: "string \<Rightarrow> jsval \<Rightarrow> (string \<times> jsval) list \<Rightarrow> (string \<times> jsval) list" where
  "set_member k v [] = [(k, v)]"
| "set_member k v ((k', v') # fs) =
     (if k' = k then (k, v) # fs else (k', v') # set_member k v fs)"

text \<open>
  \<open>v.k\<close>: a \<open>TypeError\<close> on \<open>undefined\<close> and \<open>null\<close>; on a string, on an array
  and on an object without the member, \<open>undefined\<close> (the handlers read no index and
  no built-in member this way).
\<close>

definition get_member :: "js_heap \<Rightarrow> jsval \<Rightarrow> string \<Rightarrow> js_error + jsval" where
  "get_member h v k =
     (case v of
        Undefined \<Rightarrow> Inl TypeError
      | Null \<Rightarrow> Inl TypeError
      | Str s \<Rightarrow> Inr Undefined
      | Ref a \<Rightarrow> (case objs h a of
                    Some (Obj fs) \<Rightarrow> Inr (lookup_member fs k)
                  | _ \<Rightarrow> Inr Undefined))"

text \<open>\<open>v?.k\<close>\<close>

definition get_member_opt :: "js_heap \<Rightarrow> jsval \<Rightarrow> string \<Rightarrow> jsval" where
  "get_member_opt h v k =
     (case get_member h v k of Inl e \<Rightarrow> Undefined | Inr x \<Rightarrow> x)"

definition js_truthy :: "jsval \<Rightarrow> bool" where
  "js_truthy v =
     (case v of Undefined \<Rightarrow> False | Null \<Rightarrow> False | Str s \<Rightarrow> s \<noteq> [] | Ref a \<Rightarrow> True)"

text \<open>
  The key under which a spread copies an indexed element: the index in decimal,
  built from its last digit backwards.
\<close>

fun decimal_digits :: "nat \<Rightarrow> string \<Rightarrow> string" where
  "decimal_digits n acc =
     (let acc' = char_of (n mod 10 + 48) # acc
      in if n < 10 then acc' else decimal_digits (n div 10) acc')"

definition index_key :: "nat \<Rightarrow> string" where
  "index_key n = decimal_digits n []"

definition indexed :: "jsval list \<Rightarrow> (string \<times> jsval) list" where
  "indexed xs = map (\<lambda>i. (index_key i, xs ! i)) [0 ..< length xs]"

text \<open>
  The own enumerable members an object spread \<open>{...v}\<close> copies: none for
  \<open>undefined\<close> and \<open>null\<close>, the indexed characters of a string, the indexed elements
  of an array, the members of an object.
\<close>

definition spread_members :: "js_heap \<Rightarrow> jsval \<Rightarrow> (string \<times> jsval) list" where
  "spread_members h v =
     (case v of
        Undefined \<Rightarrow> []
      | Null \<Rightarrow> []
      | Str s \<Rightarrow> indexed (map (\<lambda>c. Str [c]) s)
      | Ref a \<Rightarrow> (case objs h a of
                    Some (Obj fs) \<Rightarrow> fs
                  | Some (Arr xs) \<Rightarrow> indexed xs
                  | None \<Rightarrow> []))"

text \<open>
  The elements an array spread \<open>[...v]\<close> iterates: those of an array, the characters
  of a string; anything else is not iterable.
\<close>

definition spread_elements :: "js_heap \<Rightarrow> jsval \<Rightarrow> js_error + jsval list" where
  "spread_elements h v =
     (case v of
        Str s \<Rightarrow> Inr (map (\<lambda>c. Str [c]) s)
      | Ref a \<Rightarrow> (case objs h a of Some (Arr xs) \<Rightarrow> Inr xs | _ \<Rightarrow> Inl TypeError)
      | _ \<Rightarrow> Inl TypeError)"

text \<open>
  \<open>v.filter((_, i) => i !== index)\<close>: the elements of an array but the one at
  \<open>index\<close>; only an array has \<open>filter\<close>.
\<close>

definition filter_not_index :: "js_heap \<Rightarrow> jsval \<Rightarrow> nat \<Rightarrow> js_error + jsval list" where
  "filter_not_index h v index =
     (case v of
        Ref a \<Rightarrow> (case objs h a of
                    Some (Arr xs) \<Rightarrow> Inr (take index xs @ drop (Suc index) xs)
                  | _ \<Rightarrow> Inl TypeError)
      | _ \<Rightarrow> Inl TypeError)"

text \<open>The component: the store and the \<open>formData\<close> state.\<close>

record resume_form =
  heap :: js_heap
  formData :: jsval

definition empty_contact :: jsobj where
  "empty_contact = Obj [(''first_name'', Str []), (''last_name'', Str []), (''email'', Str []),
                        (''phone'', Str []), (''city'', Str []), (''state'', Str [])]"

definition empty_education :: jsobj where
  "empty_education = Obj [(''degree'', Str []), (''field_of_study'', Str []),
                          (''institution'', Str []), (''graduation_year'', Str [])]"

text \<open>
  \<open>{ job_title: '', company: '', start_date: '', end_date: '', description: [] }\<close>
\<close>

definition new_experience :: "js_heap \<Rightarrow> addr \<times> js_heap" where
  "new_experience h =
     (let (d, h1) = alloc (Arr []) h
      in alloc (Obj [(''job_title'', Str []), (''company'', Str []), (''start_date'', Str []),
                     (''end_date'', Str []), (''description'', Ref d)]) h1)"

text \<open>
  \<open>setFormData({ ...formData, contact: { ...formData.contact, [field]: value } })\<close>
\<close>

definition updateContact :: "string \<Rightarrow> jsval \<Rightarrow> resume_form \<Rightarrow> js_error + resume_form" where
  "updateContact field v s =
     (case get_member (heap s) (formData s) ''contact'' of
        Inl e \<Rightarrow> Inl e
      | Inr c \<Rightarrow>
          (let (a, h1) = alloc (Obj (set_member field v (spread_members (heap s) c))) (heap s);
               (b, h2) = alloc (Obj (set_member ''contact'' (Ref a)
                                      (spread_members h1 (formData s)))) h1
           in Inr \<lparr>heap = h2, formData = Ref b\<rparr>))"

text \<open>
  The body shared by \<open>updateEducation\<close> and \<open>updateExperience\<close>, for the member
  \<open>key\<close> of the form data:
  \<open>const copy = [...formData[key]];
  copy[index] = { ...copy[index], [field]: value };
  setFormData({ ...formData, [key]: copy });\<close>
\<close>

definition update_entry ::
  "string \<Rightarrow> nat \<Rightarrow> string \<Rightarrow> jsval \<Rightarrow> resume_form \<Rightarrow> js_error + resume_form" where
  "update_entry key index field v s =
     (case get_member (heap s) (formData s) key of
        Inl e \<Rightarrow> Inl e
      | Inr arr \<Rightarrow>
          (case spread_elements (heap s) arr of
             Inl e \<Rightarrow> Inl e
           | Inr xs \<Rightarrow>
               (let (a, h1) = alloc (Arr xs) (heap s);
                    old = (if index < length xs then xs ! index else Undefined);
                    (b, h2) = alloc (Obj (set_member field v (spread_members h1 old))) h1;
                    h3 = array_assign a index (Ref b) h2;
                    (c, h4) = alloc (Obj (set_member key (Ref a)
                                           (spread_members h3 (formData s)))) h3
                in Inr \<lparr>heap = h4, formData = Ref c\<rparr>)))"

definition updateEducation :: "nat \<Rightarrow> string \<Rightarrow> jsval \<Rightarrow> resume_form \<Rightarrow> js_error + resume_form" where
  "updateEducation index field v s = update_entry ''education'' index field v s"

definition updateExperience :: "nat \<Rightarrow> string \<Rightarrow> jsval \<Rightarrow> resume_form \<Rightarrow> js_error + resume_form" where
  "updateExperience index field v s = update_entry ''work_experience'' index field v s"

text \<open>
  \<open>setFormData({ ...formData, education: [...formData.education, { degree: '', ... }] })\<close>
\<close>

definition addEducation :: "resume_form \<Rightarrow> js_error + resume_form" where
  "addEducation s =
     (case get_member (heap s) (formData s) ''education'' of
        Inl e \<Rightarrow> Inl e
      | Inr arr \<Rightarrow>
          (case spread_elements (heap s) arr of
             Inl e \<Rightarrow> Inl e
           | Inr xs \<Rightarrow>
               (let (b, h1) = alloc empty_education (heap s);
                    (a, h2) = alloc (Arr (xs @ [Ref b])) h1;
                    (c, h3) = alloc (Obj (set_member ''education'' (Ref a)
                                           (spread_members h2 (formData s)))) h2
                in Inr \<lparr>heap = h3, formData = Ref c\<rparr>)))"

definition addExperience :: "resume_form \<Rightarrow> js_error + resume_form" where
  "addExperience s =
     (case get_member (heap s) (formData s) ''work_experience'' of
        Inl e \<Rightarrow> Inl e
      | Inr arr \<Rightarrow>
          (case spread_elements (heap s) arr of
             Inl e \<Rightarrow> Inl e
           | Inr xs \<Rightarrow>
               (let (b, h1) = new_experience (heap s);
                    (a, h2) = alloc (Arr (xs @ [Ref b])) h1;
                    (c, h3) = alloc (Obj (set_member ''work_experience'' (Ref a)
                                           (spread_members h2 (formData s)))) h2
                in Inr \<lparr>heap = h3, formData = Ref c\<rparr>)))"

text \<open>
  The body shared by \<open>removeEducation\<close> and \<open>removeExperience\<close>:
  \<open>setFormData({ ...formData, [key]: formData[key].filter((_, i) => i !== index) })\<close>
\<close>

definition remove_entry :: "string \<Rightarrow> nat \<Rightarrow> resume_form \<Rightarrow> js_error + resume_form" where
  "remove_entry key index s =
     (case get_member (heap s) (formData s) key of
        Inl e \<Rightarrow> Inl e
      | Inr arr \<Rightarrow>
          (case filter_not_index (heap s) arr index of
             Inl e \<Rightarrow> Inl e
           | Inr xs \<Rightarrow>
               (let (a, h1) = alloc (Arr xs) (heap s);
                    (c, h2) = alloc (Obj (set_member key (Ref a)
                                           (spread_members h1 (formData s)))) h1
                in Inr \<lparr>heap = h2, formData = Ref c\<rparr>)))"

definition removeEducation :: "nat \<Rightarrow> resume_form \<Rightarrow> js_error + resume_form" where
  "removeEducation index s = remove_entry ''education'' index s"

definition removeExperience :: "nat \<Rightarrow> resume_form \<Rightarrow> js_error + resume_form" where
  "removeExperience index s = remove_entry ''work_experience'' index s"

text \<open>\<open>value.split(sep)\<close> for a one-character separator.\<close>

fun split_on :: "char \<Rightarrow> string \<Rightarrow> string list" where
  "split_on sep [] = [[]]"
| "split_on sep (c # cs) =
     (if c = sep then [] # split_on sep cs
      else (case split_on sep cs of
              [] \<Rightarrow> [[c]]
            | w # ws \<Rightarrow> (c # w) # ws))"

text \<open>
  \<open>s.trim()\<close>: white space and line terminators are dropped at both ends. The
  characters here are those below 256: tab, line feed, vertical tab, form feed,
  carriage return, space and the no-break space.
\<close>

definition js_space :: "char \<Rightarrow> bool" where
  "js_space c = (c \<in> set [CHR 0x09, CHR 0x0A, CHR 0x0B, CHR 0x0C, CHR 0x0D, CHR '' '', CHR 0xA0])"

definition trim :: "string \<Rightarrow> string" where
  "trim s = rev (dropWhile js_space (rev (dropWhile js_space s)))"

text \<open>
  \<open>const skillsArray = value.split(',').map((s) => s.trim()).filter((s) => s);
  setFormData({ ...formData, skills: skillsArray });\<close>
\<close>

definition updateSkills :: "string \<Rightarrow> resume_form \<Rightarrow> js_error + resume_form" where
  "updateSkills v s =
     (let skillsArray = filter (\<lambda>t. t \<noteq> []) (map trim (split_on CHR '','' v));
          (a, h1) = alloc (Arr (map Str skillsArray)) (heap s);
          (c, h2) = alloc (Obj (set_member ''skills'' (Ref a)
                                 (spread_members h1 (formData s)))) h1
      in Inr \<lparr>heap = h2, formData = Ref c\<rparr>)"

text \<open>
  The edits the form raises. The description field passes
  \<open>e.target.value.split('\n')\<close>, a fresh array, as the value.
\<close>

datatype edit =
    UpdateContact string string
  | UpdateEducation nat string string
  | AddEducation
  | RemoveEducation nat
  | UpdateExperience nat string string
  | UpdateDescription nat string
  | AddExperience
  | RemoveExperience nat
  | UpdateSkills string

fun apply_edit :: "edit \<Rightarrow> resume_form \<Rightarrow> js_error + resume_form" where
  "apply_edit (UpdateContact field v) s = updateContact field (Str v) s"
| "apply_edit (UpdateEducation i field v) s = updateEducation i field (Str v) s"
| "apply_edit AddEducation s = addEducation s"
| "apply_edit (RemoveEducation i) s = removeEducation i s"
| "apply_edit (UpdateExperience i field v) s = updateExperience i field (Str v) s"
| "apply_edit (UpdateDescription i v) s =
     (let (a, h1) = alloc (Arr (map Str (split_on CHR 0x0A v))) (heap s)
      in updateExperience i ''description'' (Ref a) (s\<lparr>heap := h1\<rparr>))"
| "apply_edit AddExperience s = addExperience s"
| "apply_edit (RemoveExperience i) s = removeExperience i s"
| "apply_edit (UpdateSkills v) s = updateSkills v s"

text \<open>
  A sequence of edits; a handler that throws leaves the state as it was.
\<close>

fun run_edits :: "edit list \<Rightarrow> resume_form \<Rightarrow> resume_form" where
  "run_edits [] s = s"
| "run_edits (e # es) s =
     run_edits es (case apply_edit e s of Inl err \<Rightarrow> s | Inr s' \<Rightarrow> s')"

text \<open>
  \<open>v.length > 0\<close> for a string or an array. (A plain object has no \<open>length\<close> in the
  response schema, and the comparison of a missing member with 0 is false.)
\<close>

definition length_positive :: "js_heap \<Rightarrow> jsval \<Rightarrow> bool" where
  "length_positive h v =
     (case v of
        Str s \<Rightarrow> length s > 0
      | Ref a \<Rightarrow> (case objs h a of Some (Arr xs) \<Rightarrow> length xs > 0 | _ \<Rightarrow> False)
      | _ \<Rightarrow> False)"

text \<open>
  The initial form data, built by the \<open>useState\<close> initialiser and again by the effect
  on \<open>data\<close>: the members of \<open>data\<close> themselves where they are present, fresh defaults
  where they are not.
\<close>

definition initial_formData :: "jsval \<Rightarrow> js_heap \<Rightarrow> resume_form" where
  "initial_formData data h =
     (let c0 = get_member_opt h data ''contact'';
          (c, h1) = (if js_truthy c0 then (c0, h)
                     else (let (a, h') = alloc empty_contact h in (Ref a, h')));
          e0 = get_member_opt h1 data ''education'';
          (e, h2) = (if js_truthy e0 \<and> length_positive h1 e0 then (e0, h1)
                     else (let (b, h') = alloc empty_education h1;
                               (a, h'') = alloc (Arr [Ref b]) h'
                           in (Ref a, h'')));
          w0 = get_member_opt h2 data ''work_experience'';
          (w, h3) = (if js_truthy w0 \<and> length_positive h2 w0 then (w0, h2)
                     else (let (b, h') = new_experience h2;
                               (a, h'') = alloc (Arr [Ref b]) h'
                           in (Ref a, h'')));
          k0 = get_member_opt h3 data ''skills'';
          (k, h4) = (if js_truthy k0 then (k0, h3)
                     else (let (a, h') = alloc (Arr []) h3 in (Ref a, h')));
          (f, h5) = alloc (Obj [(''contact'', c), (''education'', e),
                                (''work_experience'', w), (''skills'', k)]) h4
      in \<lparr>heap = h5, formData = Ref f\<rparr>)"

definition mount :: "jsval \<Rightarrow> js_heap \<Rightarrow> resume_form" where
  "mount data h =
     (let s = initial_formData data h
      in if js_truthy data then initial_formData data (heap s) else s)"

text \<open>
  What a store keeps of another: every address allocated in \<open>h\<close> holds in \<open>h'\<close> the
  object it holds in \<open>h\<close>.
\<close>

definition preserves :: "js_heap \<Rightarrow> js_heap \<Rightarrow> bool" where
  "preserves h h' = (lim h \<le> lim h' \<and> (\<forall>a < lim h. objs h' a = objs h a))"

text \<open>
  A store for the examples: a parsed-data object at address 3 with its contact at 0 and
  its education array at 2, holding the entry at 1.
\<close>

definition example_heap :: js_heap where
  "example_heap =
     \<lparr>objs = [0 \<mapsto> Obj [(''first_name'', Str ''Ann''), (''email'', Str ''ann@example.com'')],
              1 \<mapsto> Obj [(''degree'', Str ''BS''), (''institution'', Str ''MIT'')],
              2 \<mapsto> Arr [Ref 1],
              3 \<mapsto> Obj [(''contact'', Ref 0), (''education'', Ref 2), (''skills'', Null)]],
       lim = 4\<rparr>"

section \<open>The extraction pipeline (backend), modelled from the specification\<close>

text \<open>
  The backend that normalises the text and extracts the fields is not among the
  sources at hand; the definitions of this section follow the specification.
  Characters are ASCII.
\<close>

text \<open>Modelled from the spec: the character classes the TextNormalizer and the
  extractors speak of (alphabetic, lowercase, digit); the backend's own are missing.\<close>

definition is_alpha :: "char \<Rightarrow> bool" where
  "is_alpha c = (let n = (of_char c :: nat) in (65 \<le> n \<and> n \<le> 90) \<or> (97 \<le> n \<and> n \<le> 122))"

text \<open>Modelled from the spec: lowercase letters, for the dehyphenation rule of the
  missing TextNormalizer.\<close>

definition is_lower :: "char \<Rightarrow> bool" where
  "is_lower c = (let n = (of_char c :: nat) in 97 \<le> n \<and> n \<le> 122)"

text \<open>Modelled from the spec: decimal digits, for the 4-digit year pattern of the
  missing EducationExtractor.\<close>

definition is_digit :: "char \<Rightarrow> bool" where
  "is_digit c = (let n = (of_char c :: nat) in 48 \<le> n \<and> n \<le> 57)"

text \<open>Modelled from the spec: white space within a line (space and tab), the runs the
  missing TextNormalizer collapses; line breaks are kept.\<close>

definition is_blank :: "char \<Rightarrow> bool" where
  "is_blank c = (c = CHR '' '' \<or> c = CHR 0x09)"

text \<open>Modelled from the spec: white space of any kind, for the whitespace-only inputs
  the missing TextNormalizer rejects.\<close>

definition is_whitespace :: "char \<Rightarrow> bool" where
  "is_whitespace c = (c \<in> set [CHR '' '', CHR 0x09, CHR 0x0A, CHR 0x0B, CHR 0x0C, CHR 0x0D])"

text \<open>Modelled from the spec: the missing TextNormalizer's dehyphenation, section 4.1:
  a trailing hyphen followed by a line break is removed and the lines joined when the
  following line starts lowercase.\<close>

fun dehyphenate :: "string \<Rightarrow> string" where
  "dehyphenate (h # n # c # cs) =
     (if h = CHR ''-'' \<and> n = CHR 0x0A \<and> is_lower c then dehyphenate (c # cs)
      else h # dehyphenate (n # c # cs))"
| "dehyphenate cs = cs"

text \<open>Modelled from the spec: the missing TextNormalizer's whitespace collapse, section
  4.1: a run of white space within a line becomes one space, line breaks stay.\<close>

fun collapse_whitespace :: "string \<Rightarrow> string" where
  "collapse_whitespace [] = []"
| "collapse_whitespace [c] = [if is_blank c then CHR '' '' else c]"
| "collapse_whitespace (a # b # cs) =
     (if is_blank a \<and> is_blank b then collapse_whitespace (b # cs)
      else (if is_blank a then CHR '' '' else a) # collapse_whitespace (b # cs))"

text \<open>Modelled from the spec: the text the missing TextNormalizer produces, section
  4.1.\<close>

definition normalize_text :: "string \<Rightarrow> string" where
  "normalize_text raw = collapse_whitespace (dehyphenate raw)"

text \<open>Modelled from the spec: the error taxonomy of section 7, fatal kinds; the
  backend's error type is missing.\<close>

datatype error_kind = INVALID_INPUT | NOT_A_RESUME | UNEXPECTED

text \<open>Modelled from the spec: the error taxonomy of section 7, non-fatal kinds, a
  field extraction gap with the name of its field; the backend's warning type is
  missing.\<close>

datatype warning =
    SECTION_DETECTION_FAILURE
  | FIELD_EXTRACTION_GAP string
  | LLM_TIMEOUT
  | LLM_MALFORMED_RESPONSE

text \<open>Modelled from the spec: the missing TextNormalizer, section 4.1: it fails with
  INVALID_INPUT if the input is empty or contains no alphabetic characters after
  normalization.\<close>

definition TextNormalizer :: "string \<Rightarrow> error_kind + string" where
  "TextNormalizer raw =
     (let t = normalize_text raw
      in if t = [] \<or> \<not> list_ex is_alpha t then Inl INVALID_INPUT else Inr t)"

text \<open>Modelled from the spec: the states of the missing ExtractionPipeline, section
  4.9.\<close>

datatype stage =
    INIT | NORMALIZING | SECTION_DETECTION | EXTRACTING | SCORING
  | LLM_EXTRACTING | VALIDATING | DONE | FAILED

text \<open>Modelled from the spec: the extraction method selector of section 6.\<close>

datatype extraction_method = REGEX | LLM

text \<open>Modelled from the spec: the collaborators of the missing ExtractionPipeline whose
  pattern tables the specification leaves open (section 9), as parameters: the test
  for an email, a phone number or a section heading, the section detector, the field
  extractors with the scorer, the LLM adapter, and the shared validation.\<close>

record ('s, 'r) components =
  resume_signal :: "string \<Rightarrow> bool"
  detect_sections :: "string \<Rightarrow> 's"
  extract_fields :: "'s \<Rightarrow> 'r"
  score :: "'r \<Rightarrow> 'r"
  llm_extract :: "string \<Rightarrow> 'r"
  validate :: "'r \<Rightarrow> 'r"

text \<open>Modelled from the spec: the missing ExtractionPipeline, section 4.9, with the
  states it passes through:
  INIT, NORMALIZING, then SECTION_DETECTION, EXTRACTING, SCORING or LLM_EXTRACTING,
  then VALIDATING, DONE; FAILED on INVALID_INPUT from the normalizer, or on
  NOT_A_RESUME when the normalized text has no email, no phone and no section
  heading.\<close>

definition ExtractionPipeline ::
  "('s, 'r) components \<Rightarrow> extraction_method \<Rightarrow> string \<Rightarrow> (error_kind + 'r) \<times> stage list" where
  "ExtractionPipeline k method raw =
     (case TextNormalizer raw of
        Inl e \<Rightarrow> (Inl e, [INIT, NORMALIZING, FAILED])
      | Inr t \<Rightarrow>
          if \<not> resume_signal k t then (Inl NOT_A_RESUME, [INIT, NORMALIZING, FAILED])
          else (case method of
                  REGEX \<Rightarrow>
                    (Inr (validate k (score k (extract_fields k (detect_sections k t)))),
                     [INIT, NORMALIZING, SECTION_DETECTION, EXTRACTING, SCORING, VALIDATING, DONE])
                | LLM \<Rightarrow>
                    (Inr (validate k (llm_extract k t)),
                     [INIT, NORMALIZING, LLM_EXTRACTING, VALIDATING, DONE])))"

text \<open>Modelled from the spec: the states in which an extractor of the missing pipeline
  runs (section detection feeds the field extractors and counts among them).\<close>

definition extractor_stage :: "stage \<Rightarrow> bool" where
  "extractor_stage s = (s \<in> set [SECTION_DETECTION, EXTRACTING, SCORING, LLM_EXTRACTING])"

text \<open>Modelled from the spec: the 4-digit pattern of the missing EducationExtractor,
  section 4.4: the first four consecutive digits of the entry.\<close>

fun find_year :: "string \<Rightarrow> string option" where
  "find_year (a # b # c # d # cs) =
     (if is_digit a \<and> is_digit b \<and> is_digit c \<and> is_digit d then Some [a, b, c, d]
      else find_year (b # c # d # cs))"
| "find_year cs = None"

text \<open>Modelled from the spec: the number a string of digits denotes, for the range
  check of the missing EducationExtractor.\<close>

definition year_value :: "string \<Rightarrow> nat" where
  "year_value s = foldl (\<lambda>n c. 10 * n + (of_char c - 48)) 0 s"

text \<open>Modelled from the spec: the graduation year of the missing EducationExtractor,
  section 4.4: the matched year is accepted only if in range
  [1950, current_year + 10]; a value outside the range is discarded, the field left
  empty and a warning recorded. A field that finds no match is left empty with a
  warning as well (section 4.9).\<close>

definition extract_graduation_year :: "nat \<Rightarrow> string \<Rightarrow> string \<times> warning list" where
  "extract_graduation_year current_year entry =
     (case find_year entry of
        None \<Rightarrow> ([], [FIELD_EXTRACTION_GAP ''graduation_year''])
      | Some y \<Rightarrow>
          if 1950 \<le> year_value y \<and> year_value y \<le> current_year + 10 then (y, [])
          else ([], [FIELD_EXTRACTION_GAP ''graduation_year'']))"













section \<open>Properties\<close>

text \<open>
  C10. A drop calls \<open>onFileSelect\<close> exactly when the first dropped file has MIME type
  \<open>application/pdf\<close>, and then once, with that first file; any other drop makes no call
  (and the handler has no failing branch). Choosing files in the dialog calls
  \<open>onFileSelect\<close> once with the first chosen file whenever the list is not empty,
  whatever its MIME type, and makes no call on an empty list.
\<close>

theorem upload_zone_drop_vs_dialog:
  "snd (handleDrop files z) =
      (if files \<noteq> [] \<and> ftype (hd files) = ''application/pdf'' then [hd files] else [])
   \<and> snd (handleFileInput files z) = (if files \<noteq> [] then [hd files] else [])"
  by (cases files) (simp_all add: handleDrop_def handleFileInput_def Let_def)

theorem upload_zone_drop_vs_dialog_witness:
  "snd (handleDrop [\<lparr>fname = ''cv.txt'', ftype = ''text/plain'', fsize = 10\<rparr>]
          \<lparr>isDragging = True, isSettingsOpen = False\<rparr>) = []
   \<and> snd (handleFileInput [\<lparr>fname = ''cv.txt'', ftype = ''text/plain'', fsize = 10\<rparr>]
          \<lparr>isDragging = True, isSettingsOpen = False\<rparr>)
       = [\<lparr>fname = ''cv.txt'', ftype = ''text/plain'', fsize = 10\<rparr>]"
  using upload_zone_drop_vs_dialog
    [of "[\<lparr>fname = ''cv.txt'', ftype = ''text/plain'', fsize = 10\<rparr>]"
        "\<lparr>isDragging = True, isSettingsOpen = False\<rparr>"]
  by simp

subsection \<open>The PDF viewer\<close>

lemma rounding_lo:
  assumes "rounding rnd"
  shows "rnd (6 / 10) \<le> 1 \<and> 0 \<le> rnd (2 / 10)"
proof -
  from assms have m: "\<And>x y. x \<le> y \<Longrightarrow> rnd x \<le> rnd y" and r0: "rnd 0 = 0" and r1: "rnd 1 = 1"
    by (auto simp: rounding_def mono_def)
  have "rnd (6 / 10) \<le> rnd 1" by (rule m) simp
  moreover have "rnd 0 \<le> rnd (2 / 10)" by (rule m) simp
  ultimately show ?thesis using r0 r1 by simp
qed

lemma scale_ok_handler:
  assumes "rounding rnd" "scale_ok rnd v"
  shows "scale_ok rnd (control_handler rnd c v)"
proof -
  from assms(1) have m: "\<And>x y. x \<le> y \<Longrightarrow> rnd x \<le> rnd y" and i: "\<And>x. rnd (rnd x) = rnd x"
    and r2: "rnd 2 = 2" by (auto simp: rounding_def mono_def)
  from rounding_lo[OF assms(1)] have lo1: "rnd (6 / 10) \<le> 1" and st: "0 \<le> rnd (2 / 10)" by auto
  from assms(2) have lo: "rnd (6 / 10) \<le> scale v" and hi: "scale v \<le> 2" by (auto simp: scale_ok_def)
  have up: "rnd (6 / 10) \<le> rnd (scale v + rnd (2 / 10))"
    using m[of "rnd (6 / 10)" "scale v + rnd (2 / 10)"] i lo st by simp
  have dn: "rnd (scale v - rnd (2 / 10)) \<le> 2"
    using m[of "scale v - rnd (2 / 10)" 2] r2 hi st by simp
  show ?thesis
    using up dn lo hi lo1 r2
    by (cases c) (auto simp: scale_ok_def zoomIn_def zoomOut_def goToPrevPage_def goToNextPage_def)
qed

lemma numPages_handler: "numPages (control_handler rnd c v) = numPages v"
  by (cases c) (simp_all add: zoomIn_def zoomOut_def goToPrevPage_def goToNextPage_def)

lemma page_ok_handler:
  assumes "numPages v = Some n" "1 \<le> n" "1 \<le> pageNumber v" "pageNumber v \<le> n"
  shows "1 \<le> pageNumber (control_handler rnd c v) \<and> pageNumber (control_handler rnd c v) \<le> n"
  using assms
  by (cases c) (auto simp: zoomIn_def zoomOut_def goToPrevPage_def goToNextPage_def to_number_def)

lemma run_controls_inv:
  assumes "rounding rnd" "1 \<le> n"
  shows "scale_ok rnd v \<Longrightarrow> numPages v = Some n \<Longrightarrow> 1 \<le> pageNumber v \<Longrightarrow> pageNumber v \<le> n \<Longrightarrow>
     scale_ok rnd (run_controls rnd cs v) \<and> 1 \<le> pageNumber (run_controls rnd cs v)
       \<and> pageNumber (run_controls rnd cs v) \<le> n"
proof (induction cs arbitrary: v)
  case Nil
  then show ?case by simp
next
  case (Cons c cs)
  have a: "scale_ok rnd (control_handler rnd c v)"
    using scale_ok_handler[OF assms(1) Cons.prems(1)] .
  have b: "numPages (control_handler rnd c v) = Some n"
    using Cons.prems(2) by (simp add: numPages_handler)
  have c: "1 \<le> pageNumber (control_handler rnd c v) \<and> pageNumber (control_handler rnd c v) \<le> n"
    using page_ok_handler[OF Cons.prems(2) assms(2) Cons.prems(3) Cons.prems(4)] .
  show ?case using Cons.IH[OF a b] c by simp
qed

lemma click_inv:
  assumes "rounding rnd" "scale_ok rnd v" "1 \<le> pageNumber v"
  shows "scale_ok rnd (click rnd c v) \<and> 1 \<le> pageNumber (click rnd c v)"
proof (cases "control_disabled rnd c v")
  case True
  then show ?thesis using assms by (simp add: click_def)
next
  case False
  have "1 \<le> pageNumber (control_handler rnd c v)"
    using False assms(3)
    by (cases c) (auto simp: zoomIn_def zoomOut_def goToPrevPage_def goToNextPage_def)
  then show ?thesis using False scale_ok_handler[OF assms(1,2)] by (simp add: click_def)
qed

lemma run_clicks_inv:
  assumes "rounding rnd"
  shows "scale_ok rnd v \<Longrightarrow> 1 \<le> pageNumber v \<Longrightarrow>
     scale_ok rnd (run_clicks rnd cs v) \<and> 1 \<le> pageNumber (run_clicks rnd cs v)"
proof (induction cs arbitrary: v)
  case Nil
  then show ?case by simp
next
  case (Cons c cs)
  from click_inv[OF assms Cons.prems] Cons.IH show ?case by simp
qed

lemma run_controls_scale:
  assumes "rounding rnd"
  shows "scale_ok rnd v \<Longrightarrow> scale_ok rnd (run_controls rnd cs v)"
proof (induction cs arbitrary: v)
  case Nil
  then show ?case by simp
next
  case (Cons c cs)
  from Cons.IH[OF scale_ok_handler[OF assms Cons.prems]] show ?case by simp
qed

lemma initial_viewer_ok:
  assumes "rounding rnd"
  shows "scale_ok rnd initial_viewer" and "scale_ok rnd (onDocumentLoadSuccess n initial_viewer)"
  using rounding_lo[OF assms]
  by (simp_all add: scale_ok_def initial_viewer_def onDocumentLoadSuccess_def)

text \<open>
  C9, as the claim states it, fails: \<open>goToNextPage\<close> called while \<open>numPages\<close> is
  still \<open>null\<close> computes \<open>Math.min(2, null) = 0\<close>, a page number below 1.
\<close>

theorem viewer_next_before_load_counterexample:
  "pageNumber (run_controls (\<lambda>x. x) [GoToNextPage] initial_viewer) = 0
   \<and> \<not> 1 \<le> pageNumber (run_controls (\<lambda>x. x) [GoToNextPage] initial_viewer)"
  by (simp add: initial_viewer_def goToNextPage_def to_number_def)

text \<open>
  C9, amended. From the initial state, every sequence of the four handlers keeps the
  scale within \<open>[0.6, 2.0]\<close>, whether or not the document has loaded. Once
  \<open>numPages\<close> has been loaded with a value of at least 1, every sequence of the four
  handlers keeps \<open>pageNumber\<close> within \<open>[1, numPages]\<close>. Before the load, the
  page number stays at least 1 for every sequence of clicks on the buttons, whose
  \<open>disabled\<close> attributes keep \<open>goToNextPage\<close> from running while \<open>numPages\<close> is
  \<open>null\<close>.
\<close>

theorem viewer_controls_invariant:
  assumes "rounding rnd" and "1 \<le> n"
  shows "rnd (6 / 10) \<le> scale (run_controls rnd cs initial_viewer)
       \<and> scale (run_controls rnd cs initial_viewer) \<le> 2
       \<and> rnd (6 / 10) \<le> scale (run_controls rnd cs (onDocumentLoadSuccess n initial_viewer))
       \<and> scale (run_controls rnd cs (onDocumentLoadSuccess n initial_viewer)) \<le> 2
       \<and> 1 \<le> pageNumber (run_controls rnd cs (onDocumentLoadSuccess n initial_viewer))
       \<and> pageNumber (run_controls rnd cs (onDocumentLoadSuccess n initial_viewer)) \<le> n
       \<and> rnd (6 / 10) \<le> scale (run_clicks rnd cs initial_viewer)
       \<and> scale (run_clicks rnd cs initial_viewer) \<le> 2
       \<and> 1 \<le> pageNumber (run_clicks rnd cs initial_viewer)"
proof -
  have a: "scale_ok rnd (run_controls rnd cs initial_viewer)"
    using run_controls_scale[OF assms(1) initial_viewer_ok(1)[OF assms(1)]] .
  have b: "scale_ok rnd (run_controls rnd cs (onDocumentLoadSuccess n initial_viewer))
       \<and> 1 \<le> pageNumber (run_controls rnd cs (onDocumentLoadSuccess n initial_viewer))
       \<and> pageNumber (run_controls rnd cs (onDocumentLoadSuccess n initial_viewer)) \<le> n"
    using assms(2)
    by (intro run_controls_inv[OF assms initial_viewer_ok(2)[OF assms(1)]])
       (simp_all add: onDocumentLoadSuccess_def initial_viewer_def)
  have c: "scale_ok rnd (run_clicks rnd cs initial_viewer)
       \<and> 1 \<le> pageNumber (run_clicks rnd cs initial_viewer)"
    by (intro run_clicks_inv[OF assms(1) initial_viewer_ok(1)[OF assms(1)]])
       (simp add: initial_viewer_def)
  from a b c show ?thesis by (simp add: scale_ok_def)
qed

theorem viewer_controls_invariant_witness:
  "rounding (\<lambda>x. x) \<and> (1::int) \<le> 2
   \<and> pageNumber (run_controls (\<lambda>x. x) [GoToNextPage, GoToNextPage, ZoomOut, ZoomOut, ZoomOut]
        (onDocumentLoadSuccess 2 initial_viewer)) = 2
   \<and> scale (run_controls (\<lambda>x. x) [GoToNextPage, GoToNextPage, ZoomOut, ZoomOut, ZoomOut]
        (onDocumentLoadSuccess 2 initial_viewer)) = 6 / 10
   \<and> 1 \<le> pageNumber (run_clicks (\<lambda>x. x) [GoToNextPage, GoToNextPage, ZoomOut, ZoomOut, ZoomOut]
        initial_viewer)"
proof -
  have r: "rounding (\<lambda>x. x)" by (simp add: rounding_def mono_def)
  have n: "(1::int) \<le> 2" by simp
  have e: "run_controls (\<lambda>x. x) [GoToNextPage, GoToNextPage, ZoomOut, ZoomOut, ZoomOut]
        (onDocumentLoadSuccess 2 initial_viewer) = \<lparr>numPages = Some 2, pageNumber = 2, scale = 6 / 10\<rparr>"
    by (simp add: onDocumentLoadSuccess_def initial_viewer_def goToNextPage_def zoomOut_def
        to_number_def)
  from viewer_controls_invariant[OF r n, of "[GoToNextPage, GoToNextPage, ZoomOut, ZoomOut, ZoomOut]"]
  show ?thesis using r e by simp
qed

subsection \<open>The application and the API client\<close>

lemma extractedCount_sum:
  "extractedCount r =
     (if hasContact r then 1 else 0) + (if hasEducation r then 1 else 0)
     + (if hasExperience r then 1 else 0) + (if hasSkills r then 1 else 0)"
  by (simp add: extractedCount_def)

lemma extractedCount_le_4: "extractedCount r \<le> 4"
  by (simp add: extractedCount_def)

lemma handleFileSelect_resolved:
  assumes "fst (parseResume base f net) = Inr (Some r)"
  shows "extractedData (fst (handleFileSelect base f s net)) = Some r"
    and "toasts (fst (handleFileSelect base f s net)) =
           toasts s @ [Loading (if parsingMethod s = ''llm''
                                then ''Processing with AI... This may take a moment.''
                                else ''Processing your resume...''),
                       completeness_toast (classify (extractedCount r))]"
  using assms by (cases "parseResume base f net"; simp add: handleFileSelect_def Let_def)+

lemma handleFileSelect_failed:
  assumes "fst (parseResume base f net) = Inl message"
  shows "fst (handleFileSelect base f s net) =
           s\<lparr>pdfFile := None, extractedData := None, isLoading := False,
             toasts := toasts s @ [Loading (if parsingMethod s = ''llm''
                                then ''Processing with AI... This may take a moment.''
                                else ''Processing your resume...''),
                       Failure (errorTitle message) message]\<rparr>"
  using assms by (cases "parseResume base f net") (simp add: handleFileSelect_def catch_block_def Let_def)

lemma parseResume_error_response:
  assumes "respond net \<lparr>url = base @ ''/resume/parse'', form = [(''file'', f)],
              headers = [(''Content-Type'', ''multipart/form-data'')], timeout_ms = None\<rparr>
           = ErrorResponse status d"
  shows "fst (parseResume base f net) = Inl (response_error_message status d)"
  using assms by (simp add: parseResume_def axios_post_def Let_def)

lemma parseResume_sent:
  "sent (snd (parseResume base f net)) =
     sent net @ [\<lparr>url = base @ ''/resume/parse'', form = [(''file'', f)],
                  headers = [(''Content-Type'', ''multipart/form-data'')], timeout_ms = None\<rparr>]"
  by (simp add: parseResume_def axios_post_def Let_def split: outcome.splits)

lemma handleFileSelect_network:
  "snd (handleFileSelect base f s net) = snd (parseResume base f net)"
  by (cases "parseResume base f net") (simp add: handleFileSelect_def Let_def split: sum.splits option.splits)

lemma parseResume_with_method_sent:
  "sent (snd (parseResume_with_method base f method net)) =
     sent net @ [\<lparr>url = (if method = ''llm'' then base @ ''/resume/parse-llm''
                           else base @ ''/resume/parse''),
                  form = [(''file'', f)],
                  headers = [(''Content-Type'', ''multipart/form-data'')],
                  timeout_ms = Some (if method = ''llm'' then 120000 else 30000)\<rparr>]"
  by (simp add: parseResume_with_method_def axios_post_def Let_def split: outcome.splits)

text \<open>
  C1, as the claim states it, fails: a response whose contact holds a last name, a
  city and a state and nothing else is classified NONE by the application, while the
  claim counts the contact category and classifies it PARTIAL.
\<close>

theorem completeness_contact_counterexample:
  "classify (extractedCount
      \<lparr>contact = Some \<lparr>first_name = Some [], last_name = Some ''Doe'', email = Some [],
                        phone = Some [], city = Some ''Boston'', state = Some ''MA''\<rparr>,
       education = Some [], work_experience = Some [], skills = Some []\<rparr>) = NONE
   \<and> spec_completeness
      \<lparr>contact = Some \<lparr>first_name = Some [], last_name = Some ''Doe'', email = Some [],
                        phone = Some [], city = Some ''Boston'', state = Some ''MA''\<rparr>,
       education = Some [], work_experience = Some [], skills = Some []\<rparr> = PARTIAL"
  by (simp add: classify_def extractedCount_def hasContact_def hasEducation_def
      hasExperience_def hasSkills_def truthy_def spec_completeness_def spec_contact_present_def)

lemma handleFileSelect_via_resolved:
  assumes "fst (client f (parsingMethod s) net) = Inr (Some r)"
  shows "extractedData (fst (handleFileSelect_via client f s net)) = Some r"
    and "toasts (fst (handleFileSelect_via client f s net)) =
           toasts s @ [Loading (if parsingMethod s = ''llm''
                                then ''Processing with AI... This may take a moment.''
                                else ''Processing your resume...''),
                       completeness_toast (classify (extractedCount r))]"
  using assms
  by (cases "client f (parsingMethod s) net"; simp add: handleFileSelect_via_def Let_def)+

lemma handleFileSelect_as_via:
  "handleFileSelect base f s net = handleFileSelect_via (\<lambda>file method. parseResume base file) f s net"
  by (simp add: handleFileSelect_def handleFileSelect_via_def)

lemma completeness_toast_by_count:
  "completeness_toast (classify n) =
     (if n = 0 then Notice ''No data extracted'' ''Please fill in the form manually''
      else if n \<le> 2
      then Success ''Partial data extracted'' (Some ''Please review and fill in missing fields'')
      else Success ''Resume parsed successfully!'' None)"
  by (auto simp: completeness_toast_def classify_def)

text \<open>
  C1, amended. For every parse response, the application counts how many of the four
  categories are present and classifies 0 as NONE, 1 or 2 as PARTIAL, 3 or 4 as FULL,
  where the contact category is present when its first name, email or phone is not
  empty (last name, city and state are not looked at), and each of education, work
  experience and skills is present when its array has at least one entry. The toast
  raised after a resolved request is the one of this classification: the notice
  \<open>No data extracted\<close> for a count of 0, the success toast \<open>Partial data extracted\<close>
  for 1 or 2, the success toast \<open>Resume parsed successfully!\<close> for 3 or 4, with either
  copy of the client; and the response is kept as the extracted data.
\<close>

theorem completeness_classification:
  "extractedCount r =
     (if hasContact r then 1 else 0) + (if hasEducation r then 1 else 0)
     + (if hasExperience r then 1 else 0) + (if hasSkills r then 1 else 0)
   \<and> (classify (extractedCount r) = NONE \<longleftrightarrow> extractedCount r = 0)
   \<and> (classify (extractedCount r) = PARTIAL \<longleftrightarrow> extractedCount r = 1 \<or> extractedCount r = 2)
   \<and> (classify (extractedCount r) = FULL \<longleftrightarrow> extractedCount r = 3 \<or> extractedCount r = 4)
   \<and> (hasContact r \<longleftrightarrow>
        (\<exists>c. contact r = Some c
             \<and> (truthy (first_name c) \<or> truthy (email c) \<or> truthy (phone c))))
   \<and> (hasEducation r \<longleftrightarrow> (\<exists>es. education r = Some es \<and> es \<noteq> []))
   \<and> (hasExperience r \<longleftrightarrow> (\<exists>ws. work_experience r = Some ws \<and> ws \<noteq> []))
   \<and> (hasSkills r \<longleftrightarrow> (\<exists>ss. skills r = Some ss \<and> ss \<noteq> []))
   \<and> completeness_toast NONE = Notice ''No data extracted'' ''Please fill in the form manually''
   \<and> completeness_toast PARTIAL
        = Success ''Partial data extracted'' (Some ''Please review and fill in missing fields'')
   \<and> completeness_toast FULL = Success ''Resume parsed successfully!'' None
   \<and> (fst (parseResume base f net) = Inr (Some r) \<longrightarrow>
        extractedData (fst (handleFileSelect base f s net)) = Some r
        \<and> last (toasts (fst (handleFileSelect base f s net)))
            = completeness_toast (classify (extractedCount r))
        \<and> last (toasts (fst (handleFileSelect base f s net)))
            = (if extractedCount r = 0
               then Notice ''No data extracted'' ''Please fill in the form manually''
               else if extractedCount r \<le> 2
               then Success ''Partial data extracted''
                      (Some ''Please review and fill in missing fields'')
               else Success ''Resume parsed successfully!'' None))
   \<and> (fst (client f (parsingMethod s) net) = Inr (Some r) \<longrightarrow>
        extractedData (fst (handleFileSelect_via client f s net)) = Some r
        \<and> last (toasts (fst (handleFileSelect_via client f s net)))
            = (if extractedCount r = 0
               then Notice ''No data extracted'' ''Please fill in the form manually''
               else if extractedCount r \<le> 2
               then Success ''Partial data extracted''
                      (Some ''Please review and fill in missing fields'')
               else Success ''Resume parsed successfully!'' None))"
proof -
  have le: "extractedCount r \<le> 4" by (rule extractedCount_le_4)
  have n: "classify (extractedCount r) = NONE \<longleftrightarrow> extractedCount r = 0"
    by (simp add: classify_def)
  have p: "classify (extractedCount r) = PARTIAL \<longleftrightarrow> extractedCount r = 1 \<or> extractedCount r = 2"
    by (auto simp: classify_def)
  have fu: "classify (extractedCount r) = FULL \<longleftrightarrow> extractedCount r = 3 \<or> extractedCount r = 4"
    using le by (auto simp: classify_def)
  have c: "hasContact r \<longleftrightarrow>
        (\<exists>c. contact r = Some c
             \<and> (truthy (first_name c) \<or> truthy (email c) \<or> truthy (phone c)))"
    by (simp add: hasContact_def split: option.splits)
  have e: "hasEducation r \<longleftrightarrow> (\<exists>es. education r = Some es \<and> es \<noteq> [])"
    by (simp add: hasEducation_def split: option.splits)
  have w: "hasExperience r \<longleftrightarrow> (\<exists>ws. work_experience r = Some ws \<and> ws \<noteq> [])"
    by (simp add: hasExperience_def split: option.splits)
  have k: "hasSkills r \<longleftrightarrow> (\<exists>ss. skills r = Some ss \<and> ss \<noteq> [])"
    by (simp add: hasSkills_def split: option.splits)
  have t: "completeness_toast NONE = Notice ''No data extracted'' ''Please fill in the form manually''"
    "completeness_toast PARTIAL
        = Success ''Partial data extracted'' (Some ''Please review and fill in missing fields'')"
    "completeness_toast FULL = Success ''Resume parsed successfully!'' None"
    by (simp_all add: completeness_toast_def)
  have h: "fst (parseResume base f net) = Inr (Some r) \<longrightarrow>
        extractedData (fst (handleFileSelect base f s net)) = Some r
        \<and> last (toasts (fst (handleFileSelect base f s net)))
            = completeness_toast (classify (extractedCount r))
        \<and> last (toasts (fst (handleFileSelect base f s net)))
            = (if extractedCount r = 0
               then Notice ''No data extracted'' ''Please fill in the form manually''
               else if extractedCount r \<le> 2
               then Success ''Partial data extracted''
                      (Some ''Please review and fill in missing fields'')
               else Success ''Resume parsed successfully!'' None)"
    by (simp add: handleFileSelect_resolved completeness_toast_by_count)
  have v: "fst (client f (parsingMethod s) net) = Inr (Some r) \<longrightarrow>
        extractedData (fst (handleFileSelect_via client f s net)) = Some r
        \<and> last (toasts (fst (handleFileSelect_via client f s net)))
            = (if extractedCount r = 0
               then Notice ''No data extracted'' ''Please fill in the form manually''
               else if extractedCount r \<le> 2
               then Success ''Partial data extracted''
                      (Some ''Please review and fill in missing fields'')
               else Success ''Resume parsed successfully!'' None)"
    by (simp add: handleFileSelect_via_resolved completeness_toast_by_count)
  from extractedCount_sum[of r] n p fu c e w k t h v show ?thesis by blast
qed

theorem completeness_classification_witness:
  "last (toasts (fst (handleFileSelect ''http://h''
         \<lparr>fname = ''cv.pdf'', ftype = ''application/pdf'', fsize = 9\<rparr> initial_app
         \<lparr>respond = (\<lambda>rq. Resolved (Some
             \<lparr>contact = Some \<lparr>first_name = Some [], last_name = Some ''Doe'', email = Some [],
                               phone = None, city = Some ''Boston'', state = None\<rparr>,
              education = Some [], work_experience = None, skills = Some []\<rparr>)),
           sent = []\<rparr>)))
     = Notice ''No data extracted'' ''Please fill in the form manually''
   \<and> last (toasts (fst (handleFileSelect ''http://h''
         \<lparr>fname = ''cv.pdf'', ftype = ''application/pdf'', fsize = 9\<rparr> initial_app
         \<lparr>respond = (\<lambda>rq. Resolved (Some
             \<lparr>contact = Some \<lparr>first_name = Some ''John'', last_name = Some ''Doe'',
                               email = Some ''john@example.com'', phone = None,
                               city = None, state = None\<rparr>,
              education = Some [], work_experience = None, skills = Some [''Python'', ''Go'']\<rparr>)),
           sent = []\<rparr>)))
     = Success ''Partial data extracted'' (Some ''Please review and fill in missing fields'')
   \<and> last (toasts (fst (handleFileSelect ''http://h''
         \<lparr>fname = ''cv.pdf'', ftype = ''application/pdf'', fsize = 9\<rparr> initial_app
         \<lparr>respond = (\<lambda>rq. Resolved (Some
             \<lparr>contact = Some \<lparr>first_name = None, last_name = None,
                               email = None, phone = Some ''555-123-4567'',
                               city = None, state = None\<rparr>,
              education = Some [\<lparr>degree = ''BS'', field_of_study = ''Computer Science'',
                                 institution = ''MIT'', graduation_year = ''2020''\<rparr>],
              work_experience = None, skills = Some [''Python'', ''Go'']\<rparr>)),
           sent = []\<rparr>)))
     = Success ''Resume parsed successfully!'' None"
proof -
  let ?f = "\<lparr>fname = ''cv.pdf'', ftype = ''application/pdf'', fsize = 9\<rparr>"
  let ?r0 = "\<lparr>contact = Some \<lparr>first_name = Some [], last_name = Some ''Doe'', email = Some [],
                               phone = None, city = Some ''Boston'', state = None\<rparr>,
              education = Some [], work_experience = None, skills = Some []\<rparr>"
  let ?r2 = "\<lparr>contact = Some \<lparr>first_name = Some ''John'', last_name = Some ''Doe'',
                               email = Some ''john@example.com'', phone = None,
                               city = None, state = None\<rparr>,
              education = Some [], work_experience = None, skills = Some [''Python'', ''Go'']\<rparr>"
  let ?r3 = "\<lparr>contact = Some \<lparr>first_name = None, last_name = None,
                               email = None, phone = Some ''555-123-4567'',
                               city = None, state = None\<rparr>,
              education = Some [\<lparr>degree = ''BS'', field_of_study = ''Computer Science'',
                                 institution = ''MIT'', graduation_year = ''2020''\<rparr>],
              work_experience = None, skills = Some [''Python'', ''Go'']\<rparr>"
  have a: "fst (parseResume ''http://h'' ?f \<lparr>respond = (\<lambda>rq. Resolved (Some r)), sent = []\<rparr>)
      = Inr (Some r)" for r
    by (simp add: parseResume_def axios_post_def Let_def)
  have n0: "extractedCount ?r0 = 0" and n2: "extractedCount ?r2 = 2" and n3: "extractedCount ?r3 = 3"
    by (simp_all add: extractedCount_def hasContact_def hasEducation_def hasExperience_def
        hasSkills_def truthy_def)
  have t0: "last (toasts (fst (handleFileSelect ''http://h'' ?f initial_app
        \<lparr>respond = (\<lambda>rq. Resolved (Some ?r0)), sent = []\<rparr>)))
      = Notice ''No data extracted'' ''Please fill in the form manually''"
    using completeness_classification[where r = ?r0 and base = "''http://h''" and f = ?f
        and net = "\<lparr>respond = (\<lambda>rq. Resolved (Some ?r0)), sent = []\<rparr>" and s = initial_app]
      a[of ?r0] n0
    by simp
  have t2: "last (toasts (fst (handleFileSelect ''http://h'' ?f initial_app
        \<lparr>respond = (\<lambda>rq. Resolved (Some ?r2)), sent = []\<rparr>)))
      = Success ''Partial data extracted'' (Some ''Please review and fill in missing fields'')"
    using completeness_classification[where r = ?r2 and base = "''http://h''" and f = ?f
        and net = "\<lparr>respond = (\<lambda>rq. Resolved (Some ?r2)), sent = []\<rparr>" and s = initial_app]
      a[of ?r2] n2
    by simp
  have t3: "last (toasts (fst (handleFileSelect ''http://h'' ?f initial_app
        \<lparr>respond = (\<lambda>rq. Resolved (Some ?r3)), sent = []\<rparr>)))
      = Success ''Resume parsed successfully!'' None"
    using completeness_classification[where r = ?r3 and base = "''http://h''" and f = ?f
        and net = "\<lparr>respond = (\<lambda>rq. Resolved (Some ?r3)), sent = []\<rparr>" and s = initial_app]
      a[of ?r3] n3
    by simp
  from t0 t2 t3 show ?thesis by blast
qed

lemma handleFileSelect_via_network:
  "snd (handleFileSelect_via client f s net) = snd (client f (parsingMethod s) net)"
  by (cases "client f (parsingMethod s) net")
     (simp add: handleFileSelect_via_def Let_def split: sum.splits option.splits)

text \<open>
  The one-parameter copy of the client takes no method: over it, the request is the
  same whatever method is selected.
\<close>

lemma one_parameter_client_request:
  "sent (snd (handleFileSelect base f s net)) =
     sent net @ [\<lparr>url = base @ ''/resume/parse'', form = [(''file'', f)],
                  headers = [(''Content-Type'', ''multipart/form-data'')], timeout_ms = None\<rparr>]"
  by (simp only: handleFileSelect_network parseResume_sent)

text \<open>
  C2. The application calls \<open>parseResume(file, parsingMethod)\<close>, and the client written
  for that call sends exactly one request, whose form holds the file and whose
  endpoint and timeout are those of the selected method: \<open>/resume/parse-llm\<close> with
  120000 ms for \<open>llm\<close>, \<open>/resume/parse\<close> with 30000 ms otherwise. The requests for
  the two selectors differ, so the selector is part of the request and is not
  dropped; no second request (retry or fallback to the other method) is sent.
\<close>

theorem method_selector_reaches_request:
  "sent (snd (handleFileSelect_via (parseResume_with_method base) f s net)) =
     sent net @ [\<lparr>url = (if parsingMethod s = ''llm'' then base @ ''/resume/parse-llm''
                           else base @ ''/resume/parse''),
                  form = [(''file'', f)],
                  headers = [(''Content-Type'', ''multipart/form-data'')],
                  timeout_ms = Some (if parsingMethod s = ''llm'' then 120000 else 30000)\<rparr>]
   \<and> sent (snd (handleFileSelect_via (parseResume_with_method base) f
                  (s\<lparr>parsingMethod := ''llm''\<rparr>) net)) =
     sent net @ [\<lparr>url = base @ ''/resume/parse-llm'', form = [(''file'', f)],
                  headers = [(''Content-Type'', ''multipart/form-data'')],
                  timeout_ms = Some 120000\<rparr>]
   \<and> sent (snd (handleFileSelect_via (parseResume_with_method base) f
                  (s\<lparr>parsingMethod := ''regex''\<rparr>) net)) =
     sent net @ [\<lparr>url = base @ ''/resume/parse'', form = [(''file'', f)],
                  headers = [(''Content-Type'', ''multipart/form-data'')],
                  timeout_ms = Some 30000\<rparr>]
   \<and> sent (snd (handleFileSelect_via (parseResume_with_method base) f
                  (s\<lparr>parsingMethod := ''llm''\<rparr>) net))
       \<noteq> sent (snd (handleFileSelect_via (parseResume_with_method base) f
                  (s\<lparr>parsingMethod := ''regex''\<rparr>) net))
   \<and> length (sent (snd (handleFileSelect_via (parseResume_with_method base) f s net)))
       = Suc (length (sent net))"
proof -
  have g: "sent (snd (handleFileSelect_via (parseResume_with_method base) f s' net)) =
     sent net @ [\<lparr>url = (if parsingMethod s' = ''llm'' then base @ ''/resume/parse-llm''
                           else base @ ''/resume/parse''),
                  form = [(''file'', f)],
                  headers = [(''Content-Type'', ''multipart/form-data'')],
                  timeout_ms = Some (if parsingMethod s' = ''llm'' then 120000 else 30000)\<rparr>]"
    for s'
    by (simp only: handleFileSelect_via_network parseResume_with_method_sent)
  have l: "sent (snd (handleFileSelect_via (parseResume_with_method base) f
                  (s\<lparr>parsingMethod := ''llm''\<rparr>) net)) =
     sent net @ [\<lparr>url = base @ ''/resume/parse-llm'', form = [(''file'', f)],
                  headers = [(''Content-Type'', ''multipart/form-data'')],
                  timeout_ms = Some 120000\<rparr>]"
    by (simp add: g)
  have r: "sent (snd (handleFileSelect_via (parseResume_with_method base) f
                  (s\<lparr>parsingMethod := ''regex''\<rparr>) net)) =
     sent net @ [\<lparr>url = base @ ''/resume/parse'', form = [(''file'', f)],
                  headers = [(''Content-Type'', ''multipart/form-data'')],
                  timeout_ms = Some 30000\<rparr>]"
    by (simp add: g)
  have d: "sent (snd (handleFileSelect_via (parseResume_with_method base) f
                  (s\<lparr>parsingMethod := ''llm''\<rparr>) net))
       \<noteq> sent (snd (handleFileSelect_via (parseResume_with_method base) f
                  (s\<lparr>parsingMethod := ''regex''\<rparr>) net))"
    unfolding l r by simp
  have n: "length (sent (snd (handleFileSelect_via (parseResume_with_method base) f s net)))
       = Suc (length (sent net))"
    by (simp add: g)
  from g[of s] l r d n show ?thesis by blast
qed

theorem method_selector_reaches_request_witness:
  "sent (snd (handleFileSelect_via (parseResume_with_method ''http://h'')
          \<lparr>fname = ''cv.pdf'', ftype = ''application/pdf'', fsize = 9\<rparr>
          (initial_app\<lparr>parsingMethod := ''llm''\<rparr>)
          \<lparr>respond = (\<lambda>rq. ErrorResponse 500 None), sent = []\<rparr>))
     = [\<lparr>url = ''http://h/resume/parse-llm'',
         form = [(''file'', \<lparr>fname = ''cv.pdf'', ftype = ''application/pdf'', fsize = 9\<rparr>)],
         headers = [(''Content-Type'', ''multipart/form-data'')],
         timeout_ms = Some 120000\<rparr>]
   \<and> sent (snd (handleFileSelect_via (parseResume_with_method ''http://h'')
          \<lparr>fname = ''cv.pdf'', ftype = ''application/pdf'', fsize = 9\<rparr>
          (initial_app\<lparr>parsingMethod := ''regex''\<rparr>)
          \<lparr>respond = (\<lambda>rq. ErrorResponse 500 None), sent = []\<rparr>))
     = [\<lparr>url = ''http://h/resume/parse'',
         form = [(''file'', \<lparr>fname = ''cv.pdf'', ftype = ''application/pdf'', fsize = 9\<rparr>)],
         headers = [(''Content-Type'', ''multipart/form-data'')],
         timeout_ms = Some 30000\<rparr>]"
  using method_selector_reaches_request
    [of "''http://h''" "\<lparr>fname = ''cv.pdf'', ftype = ''application/pdf'', fsize = 9\<rparr>"
        initial_app "\<lparr>respond = (\<lambda>rq. ErrorResponse 500 None), sent = []\<rparr>"]
  by simp

text \<open>
  C3. Whenever \<open>parseResume\<close> throws, \<open>handleFileSelect\<close> ends with no file and no
  extracted data, not loading, and its last toast is the error toast carrying the
  thrown message. For an error response whose status is neither 413 nor 500 (the
  client-correctable 400 and 422 among them) and whose detail is not empty, the
  thrown message is the detail, prefixed by \<open>Invalid file: \<close> for status 400.
\<close>

theorem fatal_failure_clears_state_and_reports:
  "(fst (parseResume base f net) = Inl message \<longrightarrow>
      pdfFile (fst (handleFileSelect base f s net)) = None
      \<and> extractedData (fst (handleFileSelect base f s net)) = None
      \<and> \<not> isLoading (fst (handleFileSelect base f s net))
      \<and> last (toasts (fst (handleFileSelect base f s net))) = Failure (errorTitle message) message)
   \<and> (respond net \<lparr>url = base @ ''/resume/parse'', form = [(''file'', f)],
              headers = [(''Content-Type'', ''multipart/form-data'')], timeout_ms = None\<rparr>
         = ErrorResponse status (Some d) \<and> d \<noteq> [] \<and> status \<noteq> 413 \<and> status \<noteq> 500 \<longrightarrow>
      fst (parseResume base f net) = Inl (if status = 400 then ''Invalid file: '' @ d else d))"
proof -
  have a: "fst (parseResume base f net) = Inl message \<longrightarrow>
      pdfFile (fst (handleFileSelect base f s net)) = None
      \<and> extractedData (fst (handleFileSelect base f s net)) = None
      \<and> \<not> isLoading (fst (handleFileSelect base f s net))
      \<and> last (toasts (fst (handleFileSelect base f s net))) = Failure (errorTitle message) message"
    by (simp add: handleFileSelect_failed)
  have b: "respond net \<lparr>url = base @ ''/resume/parse'', form = [(''file'', f)],
              headers = [(''Content-Type'', ''multipart/form-data'')], timeout_ms = None\<rparr>
         = ErrorResponse status (Some d) \<and> d \<noteq> [] \<and> status \<noteq> 413 \<and> status \<noteq> 500 \<longrightarrow>
      fst (parseResume base f net) = Inl (if status = 400 then ''Invalid file: '' @ d else d)"
    by (auto simp: parseResume_error_response response_error_message_def detail_or_unknown_def)
  from a b show ?thesis by blast
qed

theorem fatal_failure_clears_state_and_reports_witness:
  "fst (handleFileSelect ''http://h'' \<lparr>fname = ''menu.pdf'', ftype = ''application/pdf'', fsize = 9\<rparr>
         (initial_app\<lparr>extractedData := Some
             \<lparr>contact = None, education = None, work_experience = None, skills = None\<rparr>\<rparr>)
         \<lparr>respond = (\<lambda>rq. ErrorResponse 422 (Some ''This document doesn't appear to be a resume'')),
           sent = []\<rparr>)
   = \<lparr>pdfFile = None, extractedData = None, isLoading = False, parsingMethod = ''regex'',
      toasts = [Loading ''Processing your resume...'',
                Failure ''Invalid Resume'' ''This document doesn't appear to be a resume'']\<rparr>"
proof -
  let ?f = "\<lparr>fname = ''menu.pdf'', ftype = ''application/pdf'', fsize = 9\<rparr>"
  let ?d = "''This document doesn't appear to be a resume''"
  let ?net = "\<lparr>respond = (\<lambda>rq. ErrorResponse 422 (Some ?d)), sent = []\<rparr>"
  let ?s = "initial_app\<lparr>extractedData := Some
             \<lparr>contact = None, education = None, work_experience = None, skills = None\<rparr>\<rparr>"
  have t: "errorTitle ?d = ''Invalid Resume''"
    by (simp add: errorTitle_def)
  from fatal_failure_clears_state_and_reports[of "''http://h''" ?f ?net ?d ?s 422 ?d]
  have m: "fst (parseResume ''http://h'' ?f ?net) = Inl ?d"
    and c: "pdfFile (fst (handleFileSelect ''http://h'' ?f ?s ?net)) = None
      \<and> extractedData (fst (handleFileSelect ''http://h'' ?f ?s ?net)) = None
      \<and> \<not> isLoading (fst (handleFileSelect ''http://h'' ?f ?s ?net))
      \<and> last (toasts (fst (handleFileSelect ''http://h'' ?f ?s ?net))) = Failure (errorTitle ?d) ?d"
    by simp_all
  show ?thesis
    using m t by (simp add: handleFileSelect_failed initial_app_def)
qed

subsection \<open>The resume form\<close>

lemma preserves_refl: "preserves h h"
  by (simp add: preserves_def)

lemma preserves_alloc:
  assumes "preserves h0 h" "alloc ob h = (a, h')"
  shows "preserves h0 h'" and "lim h0 \<le> a"
  using assms by (auto simp: preserves_def alloc_def)

lemma preserves_array_assign:
  assumes "preserves h0 h" "lim h0 \<le> a"
  shows "preserves h0 (array_assign a i v h)"
  using assms by (auto simp: preserves_def array_assign_def split: option.splits jsobj.splits)

lemma preserves_new_experience:
  assumes "preserves h0 h" "new_experience h = (a, h')"
  shows "preserves h0 h'"
proof -
  obtain d h1 where d: "alloc (Arr []) h = (d, h1)" by (cases "alloc (Arr []) h")
  from assms(2) d have "alloc (Obj [(''job_title'', Str []), (''company'', Str []),
      (''start_date'', Str []), (''end_date'', Str []), (''description'', Ref d)]) h1 = (a, h')"
    by (simp add: new_experience_def)
  from preserves_alloc(1)[OF preserves_alloc(1)[OF assms(1) d] this] show ?thesis .
qed

lemma updateContact_preserves:
  assumes "preserves h0 (heap s)" "updateContact field v s = Inr s'"
  shows "preserves h0 (heap s')"
proof -
  from assms(2) obtain c where c: "get_member (heap s) (formData s) ''contact'' = Inr c"
    by (auto simp: updateContact_def split: sum.splits)
  obtain a h1 where 1: "alloc (Obj (set_member field v (spread_members (heap s) c))) (heap s) = (a, h1)"
    by (cases "alloc (Obj (set_member field v (spread_members (heap s) c))) (heap s)")
  obtain b h2 where 2: "alloc (Obj (set_member ''contact'' (Ref a)
        (spread_members h1 (formData s)))) h1 = (b, h2)"
    by (cases "alloc (Obj (set_member ''contact'' (Ref a) (spread_members h1 (formData s)))) h1")
  from assms(2) c 1 2 have "heap s' = h2"
    by (auto simp: updateContact_def)
  with preserves_alloc(1)[OF preserves_alloc(1)[OF assms(1) 1] 2] show ?thesis by simp
qed

lemma update_entry_preserves:
  assumes "preserves h0 (heap s)" "update_entry key index field v s = Inr s'"
  shows "preserves h0 (heap s')"
proof -
  from assms(2) obtain arr where arr: "get_member (heap s) (formData s) key = Inr arr"
    by (auto simp: update_entry_def split: sum.splits)
  from assms(2) arr obtain xs where xs: "spread_elements (heap s) arr = Inr xs"
    by (auto simp: update_entry_def split: sum.splits)
  define old where "old = (if index < length xs then xs ! index else Undefined)"
  obtain a h1 where 1: "alloc (Arr xs) (heap s) = (a, h1)"
    by (cases "alloc (Arr xs) (heap s)")
  obtain b h2 where 2: "alloc (Obj (set_member field v (spread_members h1 old))) h1 = (b, h2)"
    by (cases "alloc (Obj (set_member field v (spread_members h1 old))) h1")
  define h3 where "h3 = array_assign a index (Ref b) h2"
  obtain c h4 where 4: "alloc (Obj (set_member key (Ref a) (spread_members h3 (formData s)))) h3
      = (c, h4)"
    by (cases "alloc (Obj (set_member key (Ref a) (spread_members h3 (formData s)))) h3")
  from assms(2) arr xs 1 2 4 have s': "heap s' = h4"
    by (auto simp: update_entry_def Let_def old_def h3_def)
  have p1: "preserves h0 h1" and fresh: "lim h0 \<le> a"
    using preserves_alloc[OF assms(1) 1] by simp_all
  have p2: "preserves h0 h2" using preserves_alloc(1)[OF p1 2] .
  have p3: "preserves h0 h3" unfolding h3_def using preserves_array_assign[OF p2 fresh] .
  from preserves_alloc(1)[OF p3 4] s' show ?thesis by simp
qed

lemma addEducation_preserves:
  assumes "preserves h0 (heap s)" "addEducation s = Inr s'"
  shows "preserves h0 (heap s')"
proof -
  from assms(2) obtain arr where arr: "get_member (heap s) (formData s) ''education'' = Inr arr"
    by (auto simp: addEducation_def split: sum.splits)
  from assms(2) arr obtain xs where xs: "spread_elements (heap s) arr = Inr xs"
    by (auto simp: addEducation_def split: sum.splits)
  obtain b h1 where 1: "alloc empty_education (heap s) = (b, h1)"
    by (cases "alloc empty_education (heap s)")
  obtain a h2 where 2: "alloc (Arr (xs @ [Ref b])) h1 = (a, h2)"
    by (cases "alloc (Arr (xs @ [Ref b])) h1")
  obtain c h3 where 3: "alloc (Obj (set_member ''education'' (Ref a)
        (spread_members h2 (formData s)))) h2 = (c, h3)"
    by (cases "alloc (Obj (set_member ''education'' (Ref a) (spread_members h2 (formData s)))) h2")
  from assms(2) arr xs 1 2 3 have "heap s' = h3"
    by (auto simp: addEducation_def)
  with preserves_alloc(1)[OF preserves_alloc(1)[OF preserves_alloc(1)[OF assms(1) 1] 2] 3]
  show ?thesis by simp
qed

lemma addExperience_preserves:
  assumes "preserves h0 (heap s)" "addExperience s = Inr s'"
  shows "preserves h0 (heap s')"
proof -
  from assms(2) obtain arr where arr: "get_member (heap s) (formData s) ''work_experience'' = Inr arr"
    by (auto simp: addExperience_def split: sum.splits)
  from assms(2) arr obtain xs where xs: "spread_elements (heap s) arr = Inr xs"
    by (auto simp: addExperience_def split: sum.splits)
  obtain b h1 where 1: "new_experience (heap s) = (b, h1)"
    by (cases "new_experience (heap s)")
  obtain a h2 where 2: "alloc (Arr (xs @ [Ref b])) h1 = (a, h2)"
    by (cases "alloc (Arr (xs @ [Ref b])) h1")
  obtain c h3 where 3: "alloc (Obj (set_member ''work_experience'' (Ref a)
        (spread_members h2 (formData s)))) h2 = (c, h3)"
    by (cases "alloc (Obj (set_member ''work_experience'' (Ref a)
        (spread_members h2 (formData s)))) h2")
  from assms(2) arr xs 1 2 3 have "heap s' = h3"
    by (auto simp: addExperience_def)
  with preserves_alloc(1)[OF preserves_alloc(1)[OF preserves_new_experience[OF assms(1) 1] 2] 3]
  show ?thesis by simp
qed

lemma remove_entry_preserves:
  assumes "preserves h0 (heap s)" "remove_entry key index s = Inr s'"
  shows "preserves h0 (heap s')"
proof -
  from assms(2) obtain arr where arr: "get_member (heap s) (formData s) key = Inr arr"
    by (auto simp: remove_entry_def split: sum.splits)
  from assms(2) arr obtain xs where xs: "filter_not_index (heap s) arr index = Inr xs"
    by (auto simp: remove_entry_def split: sum.splits)
  obtain a h1 where 1: "alloc (Arr xs) (heap s) = (a, h1)"
    by (cases "alloc (Arr xs) (heap s)")
  obtain c h2 where 2: "alloc (Obj (set_member key (Ref a) (spread_members h1 (formData s)))) h1
      = (c, h2)"
    by (cases "alloc (Obj (set_member key (Ref a) (spread_members h1 (formData s)))) h1")
  from assms(2) arr xs 1 2 have "heap s' = h2"
    by (auto simp: remove_entry_def)
  with preserves_alloc(1)[OF preserves_alloc(1)[OF assms(1) 1] 2] show ?thesis by simp
qed

lemma updateSkills_preserves:
  assumes "preserves h0 (heap s)" "updateSkills v s = Inr s'"
  shows "preserves h0 (heap s')"
proof -
  define ks where "ks = filter (\<lambda>t. t \<noteq> []) (map trim (split_on CHR '','' v))"
  obtain a h1 where 1: "alloc (Arr (map Str ks)) (heap s) = (a, h1)"
    by (cases "alloc (Arr (map Str ks)) (heap s)")
  obtain c h2 where 2: "alloc (Obj (set_member ''skills'' (Ref a)
        (spread_members h1 (formData s)))) h1 = (c, h2)"
    by (cases "alloc (Obj (set_member ''skills'' (Ref a) (spread_members h1 (formData s)))) h1")
  from assms(2) 1 2 have "heap s' = h2"
    by (auto simp: updateSkills_def Let_def ks_def)
  with preserves_alloc(1)[OF preserves_alloc(1)[OF assms(1) 1] 2] show ?thesis by simp
qed

lemma apply_edit_preserves:
  assumes "preserves h0 (heap s)" "apply_edit e s = Inr s'"
  shows "preserves h0 (heap s')"
proof (cases e)
  case (UpdateContact field v)
  with assms show ?thesis by (simp add: updateContact_preserves)
next
  case (UpdateEducation i field v)
  with assms show ?thesis by (simp add: updateEducation_def update_entry_preserves)
next
  case AddEducation
  with assms show ?thesis by (simp add: addEducation_preserves)
next
  case (RemoveEducation i)
  with assms show ?thesis by (simp add: removeEducation_def remove_entry_preserves)
next
  case (UpdateExperience i field v)
  with assms show ?thesis by (simp add: updateExperience_def update_entry_preserves)
next
  case (UpdateDescription i v)
  obtain a h1 where 1: "alloc (Arr (map Str (split_on CHR 0x0A v))) (heap s) = (a, h1)"
    by (cases "alloc (Arr (map Str (split_on CHR 0x0A v))) (heap s)")
  from assms(2) UpdateDescription 1
  have u: "update_entry ''work_experience'' i ''description'' (Ref a) (s\<lparr>heap := h1\<rparr>) = Inr s'"
    by (simp add: updateExperience_def)
  have "preserves h0 (heap (s\<lparr>heap := h1\<rparr>))"
    using preserves_alloc(1)[OF assms(1) 1] by simp
  from update_entry_preserves[OF this u] show ?thesis .
next
  case AddExperience
  with assms show ?thesis by (simp add: addExperience_preserves)
next
  case (RemoveExperience i)
  with assms show ?thesis by (simp add: removeExperience_def remove_entry_preserves)
next
  case (UpdateSkills v)
  with assms show ?thesis by (simp add: updateSkills_preserves)
qed

lemma run_edits_preserves:
  "preserves h0 (heap s) \<Longrightarrow> preserves h0 (heap (run_edits es s))"
proof (induction es arbitrary: s)
  case Nil
  then show ?case by simp
next
  case (Cons e es)
  show ?case
  proof (cases "apply_edit e s")
    case (Inl err)
    with Cons show ?thesis by simp
  next
    case (Inr s')
    from Cons.IH[OF apply_edit_preserves[OF Cons.prems Inr]] Inr show ?thesis by simp
  qed
qed

lemma initial_formData_preserves:
  assumes "preserves h0 h"
  shows "preserves h0 (heap (initial_formData data h))"
proof -
  obtain c h1 where 1: "(if js_truthy (get_member_opt h data ''contact'')
       then (get_member_opt h data ''contact'', h)
       else (let (a, h') = alloc empty_contact h in (Ref a, h'))) = (c, h1)"
    by (rule prod.exhaust)
  have p1: "preserves h0 h1"
    using 1 assms by (auto split: if_splits prod.splits dest: preserves_alloc(1))
  obtain e h2 where 2: "(if js_truthy (get_member_opt h1 data ''education'')
          \<and> length_positive h1 (get_member_opt h1 data ''education'')
       then (get_member_opt h1 data ''education'', h1)
       else (let (b, h') = alloc empty_education h1; (a, h'') = alloc (Arr [Ref b]) h'
             in (Ref a, h''))) = (e, h2)"
    by (rule prod.exhaust)
  have p2: "preserves h0 h2"
    using 2 p1 by (auto split: if_splits prod.splits dest: preserves_alloc(1))
  obtain w h3 where 3: "(if js_truthy (get_member_opt h2 data ''work_experience'')
          \<and> length_positive h2 (get_member_opt h2 data ''work_experience'')
       then (get_member_opt h2 data ''work_experience'', h2)
       else (let (b, h') = new_experience h2; (a, h'') = alloc (Arr [Ref b]) h'
             in (Ref a, h''))) = (w, h3)"
    by (rule prod.exhaust)
  have p3: "preserves h0 h3"
    using 3 p2
    by (auto split: if_splits prod.splits dest: preserves_alloc(1) preserves_new_experience)
  obtain k h4 where 4: "(if js_truthy (get_member_opt h3 data ''skills'')
       then (get_member_opt h3 data ''skills'', h3)
       else (let (a, h') = alloc (Arr []) h3 in (Ref a, h'))) = (k, h4)"
    by (rule prod.exhaust)
  have p4: "preserves h0 h4"
    using 4 p3 by (auto split: if_splits prod.splits dest: preserves_alloc(1))
  obtain f h5 where 5: "alloc (Obj [(''contact'', c), (''education'', e),
       (''work_experience'', w), (''skills'', k)]) h4 = (f, h5)"
    by (rule prod.exhaust)
  have "initial_formData data h = \<lparr>heap = h5, formData = Ref f\<rparr>"
    unfolding initial_formData_def
    by (simp only: Let_def[of "get_member_opt _ _ _"] Let_def[of "Pair _ _"] 1 2 3 4 5 prod.case)
  with preserves_alloc(1)[OF p4 5] show ?thesis by simp
qed

lemma mount_preserves: "preserves h (heap (mount data h))"
  using initial_formData_preserves[OF initial_formData_preserves[OF preserves_refl]]
    initial_formData_preserves[OF preserves_refl]
  by (simp add: mount_def Let_def)

text \<open>
  C8. Every object and array that exists when the parsed data is handed to the form
  (every address allocated in the store \<open>h\<close>, so the \<open>data\<close> object and all it
  reaches) is unchanged after the form has been mounted on \<open>data\<close> and any sequence
  of edits has run; and the same holds from any form data over \<open>h\<close>, whatever it
  shares with \<open>data\<close>. The handlers allocate new objects and arrays, and their one
  assignment, \<open>copy[index] = ...\<close>, goes to the array the handler has just allocated.
\<close>

theorem edits_leave_parsed_data_unchanged:
  "(\<forall>a < lim h. objs (heap (run_edits es (mount data h))) a = objs h a)
   \<and> (\<forall>a < lim h. objs (heap (run_edits es \<lparr>heap = h, formData = fd\<rparr>)) a = objs h a)"
proof -
  have "preserves h (heap (run_edits es (mount data h)))"
    by (rule run_edits_preserves[OF mount_preserves])
  moreover have "preserves h (heap (run_edits es \<lparr>heap = h, formData = fd\<rparr>))"
    by (rule run_edits_preserves) (simp add: preserves_refl)
  ultimately show ?thesis by (simp add: preserves_def)
qed

theorem edits_leave_parsed_data_unchanged_witness:
  "get_member (heap (mount (Ref 3) example_heap)) (formData (mount (Ref 3) example_heap))
      ''education'' = Inr (Ref 2)
   \<and> (1::nat) < lim example_heap \<and> (2::nat) < lim example_heap
   \<and> objs (heap (run_edits [UpdateEducation 0 ''degree'' ''MS'', RemoveEducation 0]
        (mount (Ref 3) example_heap))) 1
      = Some (Obj [(''degree'', Str ''BS''), (''institution'', Str ''MIT'')])
   \<and> objs (heap (run_edits [UpdateEducation 0 ''degree'' ''MS'', RemoveEducation 0]
        (mount (Ref 3) example_heap))) 2
      = Some (Arr [Ref 1])"
proof -
  have a: "get_member (heap (mount (Ref 3) example_heap))
      (formData (mount (Ref 3) example_heap)) ''education'' = Inr (Ref 2)"
    by code_simp
  have l: "lim example_heap = 4" by (simp add: example_heap_def)
  have o: "objs example_heap 1 = Some (Obj [(''degree'', Str ''BS''), (''institution'', Str ''MIT'')])"
    "objs example_heap 2 = Some (Arr [Ref 1])"
    by (simp_all add: example_heap_def)
  from edits_leave_parsed_data_unchanged
         [of example_heap "[UpdateEducation 0 ''degree'' ''MS'', RemoveEducation 0]" "Ref 3"]
  show ?thesis using a l o by simp
qed

subsection \<open>The extraction pipeline\<close>

lemma blank_not_alpha: "is_blank c \<Longrightarrow> \<not> is_alpha c"
  by (auto simp: is_blank_def is_alpha_def Let_def)

lemma space_not_alpha: "\<not> is_alpha CHR '' ''"
  by (simp add: is_alpha_def Let_def)

lemma hyphen_newline_not_alpha: "\<not> is_alpha CHR ''-''" "\<not> is_alpha CHR 0x0A"
  by (simp_all add: is_alpha_def Let_def)

lemma whitespace_not_alpha: "is_whitespace c \<Longrightarrow> \<not> is_alpha c"
  by (auto simp: is_whitespace_def is_alpha_def Let_def)

lemma alpha_dehyphenate: "filter is_alpha (dehyphenate s) = filter is_alpha s"
  by (induction s rule: dehyphenate.induct) (auto simp: hyphen_newline_not_alpha)

lemma alpha_collapse_whitespace: "filter is_alpha (collapse_whitespace s) = filter is_alpha s"
  by (induction s rule: collapse_whitespace.induct) (auto simp: blank_not_alpha space_not_alpha)

lemma alpha_normalize_text: "filter is_alpha (normalize_text raw) = filter is_alpha raw"
  by (simp add: normalize_text_def alpha_collapse_whitespace alpha_dehyphenate)

lemma list_ex_filter: "list_ex P xs \<longleftrightarrow> filter P xs \<noteq> []"
  by (induction xs) auto

lemma list_ex_alpha_normalize_text:
  "list_ex is_alpha (normalize_text raw) = list_ex is_alpha raw"
  by (simp add: list_ex_filter alpha_normalize_text)

lemma TextNormalizer_invalid:
  "TextNormalizer raw = Inl INVALID_INPUT \<longleftrightarrow> \<not> list_ex is_alpha raw"
proof -
  have "normalize_text raw = [] \<Longrightarrow> \<not> list_ex is_alpha raw"
    using list_ex_alpha_normalize_text[of raw] by simp
  then show ?thesis
    by (auto simp: TextNormalizer_def Let_def list_ex_alpha_normalize_text)
qed

text \<open>
  C5. An input that is empty or holds only white space has no alphabetic character.
  For every input without an alphabetic character (which is the same as: its
  normalized text has none), whatever the method and the extractors, the pipeline
  fails with INVALID_INPUT and passes through INIT, NORMALIZING and FAILED only, none
  of them a state in which an extractor runs.
\<close>

theorem blank_input_fails_before_extraction:
  "((raw = [] \<or> list_all is_whitespace raw) \<longrightarrow> \<not> list_ex is_alpha raw)
   \<and> list_ex is_alpha (normalize_text raw) = list_ex is_alpha raw
   \<and> (\<not> list_ex is_alpha raw \<longrightarrow>
        ExtractionPipeline k method raw = (Inl INVALID_INPUT, [INIT, NORMALIZING, FAILED])
        \<and> \<not> list_ex extractor_stage (snd (ExtractionPipeline k method raw)))"
proof -
  have a: "(raw = [] \<or> list_all is_whitespace raw) \<longrightarrow> \<not> list_ex is_alpha raw"
    by (auto simp: list_all_iff list_ex_iff whitespace_not_alpha)
  have b: "\<not> list_ex is_alpha raw \<longrightarrow>
        ExtractionPipeline k method raw = (Inl INVALID_INPUT, [INIT, NORMALIZING, FAILED])"
  proof
    assume "\<not> list_ex is_alpha raw"
    then have "TextNormalizer raw = Inl INVALID_INPUT"
      by (simp add: TextNormalizer_invalid)
    then show "ExtractionPipeline k method raw = (Inl INVALID_INPUT, [INIT, NORMALIZING, FAILED])"
      by (simp add: ExtractionPipeline_def)
  qed
  have c: "\<not> list_ex extractor_stage [INIT, NORMALIZING, FAILED]"
    by (simp add: extractor_stage_def)
  from a b c list_ex_alpha_normalize_text[of raw] show ?thesis by auto
qed

theorem blank_input_fails_before_extraction_witness:
  "list_all is_whitespace [CHR '' '', CHR 0x0A, CHR 0x09, CHR '' '']
   \<and> ExtractionPipeline
        \<lparr>resume_signal = (\<lambda>t. True), detect_sections = (\<lambda>t. [t]),
         extract_fields = (\<lambda>s. s), score = (\<lambda>r. r), llm_extract = (\<lambda>t. [t]),
         validate = (\<lambda>r. r)\<rparr>
        REGEX [CHR '' '', CHR 0x0A, CHR 0x09, CHR '' '']
      = (Inl INVALID_INPUT, [INIT, NORMALIZING, FAILED])"
proof -
  have w: "list_all is_whitespace [CHR '' '', CHR 0x0A, CHR 0x09, CHR '' '']"
    by (simp add: is_whitespace_def)
  from blank_input_fails_before_extraction
         [of "[CHR '' '', CHR 0x0A, CHR 0x09, CHR '' '']"
             "\<lparr>resume_signal = (\<lambda>t. True), detect_sections = (\<lambda>t. [t]),
               extract_fields = (\<lambda>s. s), score = (\<lambda>r. r), llm_extract = (\<lambda>t. [t]),
               validate = (\<lambda>r. r)\<rparr>" REGEX] w
  show ?thesis by blast
qed

lemma find_year_Some:
  "find_year s = Some y \<Longrightarrow> length y = 4 \<and> list_all is_digit y \<and> sublist y s"
proof (induction s rule: find_year.induct)
  case (1 a b c d cs)
  show ?case
  proof (cases "is_digit a \<and> is_digit b \<and> is_digit c \<and> is_digit d")
    case True
    with 1(2) have y: "y = [a, b, c, d]" by simp
    have "prefix [a, b, c, d] (a # b # c # d # cs)" by simp
    then have "sublist [a, b, c, d] (a # b # c # d # cs)" by (rule prefix_imp_sublist)
    with y True show ?thesis by simp
  next
    case False
    with 1(2) have "find_year (b # c # d # cs) = Some y" by auto
    from 1(1)[OF False this] show ?thesis by (simp add: sublist_Cons_right[of y a])
  qed
qed simp_all

text \<open>
  C6. When the 4-digit pattern matches a year in \<open>[1950, current_year + 10]\<close>, the
  graduation year is the matched text and no warning is recorded; when it matches a
  year outside the range, the field is left empty and a warning naming the field is
  recorded. A graduation year that is not empty is always the matched text itself:
  four digits that occur in the entry, with a value in the range, so that no value
  is clamped, corrected or guessed.
\<close>

theorem graduation_year_range:
  "(find_year entry = Some y \<and> 1950 \<le> year_value y \<and> year_value y \<le> current_year + 10 \<longrightarrow>
      extract_graduation_year current_year entry = (y, []))
   \<and> (find_year entry = Some y \<and> \<not> (1950 \<le> year_value y \<and> year_value y \<le> current_year + 10) \<longrightarrow>
      fst (extract_graduation_year current_year entry) = []
      \<and> FIELD_EXTRACTION_GAP ''graduation_year''
          \<in> set (snd (extract_graduation_year current_year entry)))
   \<and> (fst (extract_graduation_year current_year entry) \<noteq> [] \<longrightarrow>
      find_year entry = Some (fst (extract_graduation_year current_year entry))
      \<and> length (fst (extract_graduation_year current_year entry)) = 4
      \<and> list_all is_digit (fst (extract_graduation_year current_year entry))
      \<and> sublist (fst (extract_graduation_year current_year entry)) entry
      \<and> 1950 \<le> year_value (fst (extract_graduation_year current_year entry))
      \<and> year_value (fst (extract_graduation_year current_year entry)) \<le> current_year + 10)"
proof -
  have a: "find_year entry = Some y \<and> 1950 \<le> year_value y \<and> year_value y \<le> current_year + 10 \<longrightarrow>
      extract_graduation_year current_year entry = (y, [])"
    by (simp add: extract_graduation_year_def)
  have b: "find_year entry = Some y \<and> \<not> (1950 \<le> year_value y \<and> year_value y \<le> current_year + 10) \<longrightarrow>
      fst (extract_graduation_year current_year entry) = []
      \<and> FIELD_EXTRACTION_GAP ''graduation_year''
          \<in> set (snd (extract_graduation_year current_year entry))"
    by (auto simp: extract_graduation_year_def)
  have c: "fst (extract_graduation_year current_year entry) \<noteq> [] \<longrightarrow>
      find_year entry = Some (fst (extract_graduation_year current_year entry))
      \<and> length (fst (extract_graduation_year current_year entry)) = 4
      \<and> list_all is_digit (fst (extract_graduation_year current_year entry))
      \<and> sublist (fst (extract_graduation_year current_year entry)) entry
      \<and> 1950 \<le> year_value (fst (extract_graduation_year current_year entry))
      \<and> year_value (fst (extract_graduation_year current_year entry)) \<le> current_year + 10"
  proof
    assume ne: "fst (extract_graduation_year current_year entry) \<noteq> []"
    then obtain z where z: "find_year entry = Some z"
      by (cases "find_year entry") (auto simp: extract_graduation_year_def)
    with ne have r: "1950 \<le> year_value z \<and> year_value z \<le> current_year + 10"
      by (auto simp: extract_graduation_year_def split: if_splits)
    with z have e: "fst (extract_graduation_year current_year entry) = z"
      by (simp add: extract_graduation_year_def)
    from find_year_Some[OF z] z r e
    show "find_year entry = Some (fst (extract_graduation_year current_year entry))
      \<and> length (fst (extract_graduation_year current_year entry)) = 4
      \<and> list_all is_digit (fst (extract_graduation_year current_year entry))
      \<and> sublist (fst (extract_graduation_year current_year entry)) entry
      \<and> 1950 \<le> year_value (fst (extract_graduation_year current_year entry))
      \<and> year_value (fst (extract_graduation_year current_year entry)) \<le> current_year + 10"
      by simp
  qed
  from a b c show ?thesis by blast
qed

theorem graduation_year_range_witness:
  "find_year ''BS Computer Science, MIT, 2020'' = Some ''2020''
   \<and> 1950 \<le> year_value ''2020'' \<and> year_value ''2020'' \<le> 2026 + 10
   \<and> extract_graduation_year 2026 ''BS Computer Science, MIT, 2020'' = (''2020'', [])
   \<and> find_year ''Diploma, 1890'' = Some ''1890''
   \<and> \<not> (1950 \<le> year_value ''1890'' \<and> year_value ''1890'' \<le> 2026 + 10)
   \<and> fst (extract_graduation_year 2026 ''Diploma, 1890'') = []
   \<and> FIELD_EXTRACTION_GAP ''graduation_year''
        \<in> set (snd (extract_graduation_year 2026 ''Diploma, 1890''))"
proof -
  have f1: "find_year ''BS Computer Science, MIT, 2020'' = Some ''2020''"
    by code_simp
  have r1: "1950 \<le> year_value ''2020'' \<and> year_value ''2020'' \<le> 2026 + 10"
    by code_simp
  have f2: "find_year ''Diploma, 1890'' = Some ''1890''"
    by code_simp
  have r2: "\<not> (1950 \<le> year_value ''1890'' \<and> year_value ''1890'' \<le> 2026 + 10)"
    by code_simp
  have i1: "extract_graduation_year 2026 ''BS Computer Science, MIT, 2020'' = (''2020'', [])"
    using graduation_year_range[of "''BS Computer Science, MIT, 2020''" "''2020''" 2026] f1 r1
    by blast
  have i2: "fst (extract_graduation_year 2026 ''Diploma, 1890'') = []
      \<and> FIELD_EXTRACTION_GAP ''graduation_year''
        \<in> set (snd (extract_graduation_year 2026 ''Diploma, 1890''))"
    using graduation_year_range[of "''Diploma, 1890''" "''1890''" 2026] f2 r2
    by blast
  from f1 r1 i1 f2 r2 i2 show ?thesis by blast
qed










end
